theory Spec2Isabelle
  imports Main
begin

section \<open>The Stream Deck controller of \<^verbatim>\<open>src/streamdeck.mjs\<close>\<close>

text \<open>
  The class \<^verbatim>\<open>StreamDeckController\<close> is modelled by explicit state passing: its
  private fields are the fields of the record \<open>controller\<close>, each method takes the
  controller and returns the updated one. Every handler runs to completion before the
  next event is looked at (the \<^verbatim>\<open>await\<close>s of one handler are run in sequence).
  A JavaScript exception is a value of type \<open>error\<close>. The device, the renderer and the
  callbacks handed in from outside are collaborators: the device is the record
  \<open>device\<close> with the faces it shows, a callback is a name, and running it is recorded
  in the trace \<open>fired\<close>.
\<close>

subsection \<open>Values\<close>

text \<open>The payload of a key event: a bare number, or an object carrying \<^verbatim>\<open>index\<close>.\<close>

datatype raw_key = Bare int | Structured int

text \<open>The result of \<^verbatim>\<open>Number(x)\<close>; a plain object converts to \<^verbatim>\<open>NaN\<close>.\<close>

datatype jsnum = Finite int | NaN

datatype error = TypeError string | Error string

datatype channel = L | R

record module =
  m_name :: "string option"
  deviceName :: "string option"
  role :: "string option"
  midiNote :: "int option"
  channel :: channel
  phonia :: "string option"
  tags :: "string list option"
  ab :: "string option"

record chain =
  name :: string
  chain_id :: "string option"
  midiChannel :: "int option"
  active :: bool
  modules :: "module list"

text \<open>
  The three kinds of callback: the closure made by \<^verbatim>\<open>createChainNameButton\<close> (it
  captures the chain name), the closure made by \<^verbatim>\<open>createCustomLayout\<close> (it captures
  the label and the module), and a callback supplied by a caller of the public methods.
\<close>

datatype callback =
    CurrentChainPressed string
  | ModulePressed string module
  | External nat

datatype arg = NoArg | KeyArg raw_key | RotArg int

datatype button_info =
    NoInfo
  | CurrentChainInfo string
  | ModuleInfo string "string option"

record button_state =
  pressCallback :: "callback option"
  releaseCallback :: "callback option"
  info :: button_info

record encoder_callbacks =
  enc_rotate :: "callback option"
  enc_press :: "callback option"
  enc_release :: "callback option"

text \<open>What \<^verbatim>\<open>setButtonText\<close> draws on one key.\<close>

record face =
  f_text :: string
  f_fontSize :: nat
  f_color :: string
  f_backgroundColor :: string
  f_cornerRadius :: nat
  f_midiChannel :: "int option"

text \<open>
  The opened device: the faces on its keys, its brightness, and which writes it accepts
  (rendering or \<^verbatim>\<open>fillKeyBuffer\<close> may throw; \<^verbatim>\<open>setButtonText\<close> catches that).
\<close>

record device =
  panel :: "int \<rightharpoonup> face"
  brightness :: nat
  accepts :: "int \<Rightarrow> face \<Rightarrow> bool"

record controller =
  streamDeck :: "device option"
  buttonStates :: "jsnum \<rightharpoonup> button_state"
  left :: encoder_callbacks
  right :: encoder_callbacks
  chains :: "chain list"
  currentChain :: "chain option"
  buttonTexts :: "int \<rightharpoonup> string"
  fired :: "(callback \<times> arg) list"
  console_errors :: "error list"

text \<open>The field initialisers of the class, with the device \<open>d\<close> opened (or not).\<close>

definition no_callbacks :: encoder_callbacks where
  "no_callbacks = \<lparr>enc_rotate = None, enc_press = None, enc_release = None\<rparr>"

definition initial :: "device option \<Rightarrow> controller" where
  "initial d =
     \<lparr>streamDeck = d, buttonStates = Map.empty, left = no_callbacks, right = no_callbacks,
      chains = [], currentChain = None, buttonTexts = Map.empty, fired = [],
      console_errors = []\<rparr>"

text \<open>Running a callback: the call is appended to the trace.\<close>

definition invoke :: "callback \<Rightarrow> arg \<Rightarrow> controller \<Rightarrow> controller" where
  "invoke cb a s = s\<lparr>fired := fired s @ [(cb, a)]\<rparr>"

text \<open>\<^verbatim>\<open>cb?.(a)\<close>: nothing happens when the callback is absent.\<close>

definition invoke_opt :: "callback option \<Rightarrow> arg \<Rightarrow> controller \<Rightarrow> controller" where
  "invoke_opt cbo a s = (case cbo of None \<Rightarrow> s | Some cb \<Rightarrow> invoke cb a s)"

subsection \<open>Encoders\<close>

datatype encoderKey = LeftKey | RightKey

text \<open>\<^verbatim>\<open>encoder === 0 ? 'left' : 'right'\<close>\<close>

definition encoderKey_of :: "int \<Rightarrow> encoderKey" where
  "encoderKey_of encoder = (if encoder = 0 then LeftKey else RightKey)"

definition encoderCallbacks :: "controller \<Rightarrow> encoderKey \<Rightarrow> encoder_callbacks" where
  "encoderCallbacks s k = (case k of LeftKey \<Rightarrow> left s | RightKey \<Rightarrow> right s)"

definition registerEncoderActions ::
  "int \<Rightarrow> callback option \<Rightarrow> callback option \<Rightarrow> callback option \<Rightarrow> controller \<Rightarrow> controller"
where
  "registerEncoderActions encoder onRotate onPress onRelease s =
     (let cbs = \<lparr>enc_rotate = onRotate, enc_press = onPress, enc_release = onRelease\<rparr>
      in case encoderKey_of encoder of
           LeftKey \<Rightarrow> s\<lparr>left := cbs\<rparr>
         | RightKey \<Rightarrow> s\<lparr>right := cbs\<rparr>)"

definition handleEncoderRotate :: "int \<Rightarrow> int \<Rightarrow> controller \<Rightarrow> controller" where
  "handleEncoderRotate encoder rotation s =
     invoke_opt (enc_rotate (encoderCallbacks s (encoderKey_of encoder))) (RotArg rotation) s"

definition handleEncoderPress :: "int \<Rightarrow> controller \<Rightarrow> controller" where
  "handleEncoderPress encoder s =
     invoke_opt (enc_press (encoderCallbacks s (encoderKey_of encoder))) NoArg s"

definition handleEncoderRelease :: "int \<Rightarrow> controller \<Rightarrow> controller" where
  "handleEncoderRelease encoder s =
     invoke_opt (enc_release (encoderCallbacks s (encoderKey_of encoder))) NoArg s"

subsection \<open>Keys and button texts\<close>

text \<open>\<^verbatim>\<open>#getKeyIndex\<close>: an object gives its \<^verbatim>\<open>index\<close>, anything else goes through \<^verbatim>\<open>Number\<close>.\<close>

fun getKeyIndex :: "raw_key \<Rightarrow> int" where
  "getKeyIndex (Structured i) = i"
| "getKeyIndex (Bare n) = n"

text \<open>\<^verbatim>\<open>Number(keyIndex)\<close>, which does not look into an object.\<close>

fun Number :: "raw_key \<Rightarrow> jsnum" where
  "Number (Bare n) = Finite n"
| "Number (Structured i) = NaN"

text \<open>\<^verbatim>\<open>x || d\<close> on a string that may be missing: the empty string is falsy too.\<close>

definition or_default :: "string option \<Rightarrow> string \<Rightarrow> string" where
  "or_default x d = (case x of None \<Rightarrow> d | Some v \<Rightarrow> if v = [] then d else v)"

definition digit_char :: "nat \<Rightarrow> char" where
  "digit_char d = ''0123456789'' ! d"

function string_of_nat :: "nat \<Rightarrow> string" where
  "string_of_nat n =
     (if n < 10 then [digit_char n] else string_of_nat (n div 10) @ [digit_char (n mod 10)])"
  by pat_completeness auto
termination
  by (relation "measure id") auto

declare string_of_nat.simps [simp del]

definition string_of_int :: "int \<Rightarrow> string" where
  "string_of_int i = (if i < 0 then CHR ''-'' # string_of_nat (nat (- i)) else string_of_nat (nat i))"

definition getButtonText :: "raw_key \<Rightarrow> controller \<Rightarrow> string" where
  "getButtonText keyIndex s =
     (let index = getKeyIndex keyIndex
      in or_default (buttonTexts s index) (''Unknown Button '' @ string_of_int index))"

record options =
  o_fontSize :: "nat option"
  o_color :: "string option"
  o_backgroundColor :: "string option"
  o_cornerRadius :: "nat option"
  o_midiChannel :: "int option"

text \<open>The destructuring of \<^verbatim>\<open>options\<close> with its defaults.\<close>

definition face_of :: "string \<Rightarrow> options \<Rightarrow> face" where
  "face_of txt opts =
     \<lparr>f_text = txt,
      f_fontSize = (case o_fontSize opts of None \<Rightarrow> 20 | Some n \<Rightarrow> n),
      f_color = (case o_color opts of None \<Rightarrow> ''#ffffff'' | Some c \<Rightarrow> c),
      f_backgroundColor = (case o_backgroundColor opts of None \<Rightarrow> ''#000000'' | Some c \<Rightarrow> c),
      f_cornerRadius = (case o_cornerRadius opts of None \<Rightarrow> 20 | Some n \<Rightarrow> n),
      f_midiChannel = o_midiChannel opts\<rparr>"

text \<open>
  \<^verbatim>\<open>setButtonText\<close>: nothing without a device; a failed rendering or write is caught
  and logged, and then the text of the key is not stored.
\<close>

definition setButtonText :: "raw_key \<Rightarrow> string \<Rightarrow> options \<Rightarrow> controller \<Rightarrow> controller" where
  "setButtonText keyIndex txt opts s =
     (let index = getKeyIndex keyIndex
      in case streamDeck s of
           None \<Rightarrow> s
         | Some d \<Rightarrow>
             if accepts d index (face_of txt opts)
             then s\<lparr>streamDeck := Some (d\<lparr>panel := (panel d)(index \<mapsto> face_of txt opts)\<rparr>),
                    buttonTexts := (buttonTexts s)(index \<mapsto> txt)\<rparr>
             else s\<lparr>console_errors :=
                      console_errors s @ [Error (''Error setting text for button '' @ string_of_int index)]\<rparr>)"

definition registerButtonAction ::
  "raw_key \<Rightarrow> callback option \<Rightarrow> callback option \<Rightarrow> button_info \<Rightarrow> controller \<Rightarrow> controller"
where
  "registerButtonAction keyIndex pressCb releaseCb buttonInfo s =
     s\<lparr>buttonStates := (buttonStates s)(Number keyIndex \<mapsto>
          \<lparr>pressCallback = pressCb, releaseCallback = releaseCb, info = buttonInfo\<rparr>)\<rparr>"

text \<open>\<^verbatim>\<open>resetDeck\<close>; \<^verbatim>\<open>clearPanel\<close> and \<^verbatim>\<open>setBrightness\<close> are taken to succeed.\<close>

definition resetDeck :: "controller \<Rightarrow> controller" where
  "resetDeck s =
     (case streamDeck s of
        None \<Rightarrow> s
      | Some d \<Rightarrow>
          s\<lparr>streamDeck := Some (d\<lparr>panel := Map.empty, brightness := 100\<rparr>),
            buttonStates := Map.empty,
            buttonTexts := Map.empty\<rparr>)"

subsection \<open>The catalog view\<close>

definition createShowChainsButton :: "controller \<Rightarrow> controller" where
  "createShowChainsButton s =
     setButtonText (Bare 0) ''Show Chains''
       \<lparr>o_fontSize = Some 16, o_color = Some ''#ffffff'', o_backgroundColor = Some ''#FF0000'',
        o_cornerRadius = None, o_midiChannel = None\<rparr> s"

definition chain_options :: "int option \<Rightarrow> options" where
  "chain_options midi =
     \<lparr>o_fontSize = Some 16, o_color = Some ''#ffffff'', o_backgroundColor = Some ''#8B4513'',
      o_cornerRadius = None, o_midiChannel = midi\<rparr>"

text \<open>The loop of \<^verbatim>\<open>showChains\<close>: \<^verbatim>\<open>for (let i = 0; i < chains.length && i < 31; i++)\<close>.\<close>

function showChains_loop :: "nat \<Rightarrow> controller \<Rightarrow> controller" where
  "showChains_loop i s =
     (if i < length (chains s) \<and> i < 31
      then (let chain = chains s ! i;
                buttonIndex = int i + 1
            in showChains_loop (i + 1)
                 (setButtonText (Bare buttonIndex) (name chain) (chain_options (midiChannel chain)) s))
      else s)"
  by pat_completeness auto
termination
  by (relation "measure (\<lambda>(i, s). 31 - i)") auto

declare showChains_loop.simps [simp del]

definition showChains :: "controller \<Rightarrow> controller" where
  "showChains s = showChains_loop 0 (createShowChainsButton (resetDeck s))"

subsection \<open>The chain view\<close>

definition lower_char :: "char \<Rightarrow> char" where
  "lower_char c =
     (case map_of (zip ''ABCDEFGHIJKLMNOPQRSTUVWXYZ'' ''abcdefghijklmnopqrstuvwxyz'') c of
        None \<Rightarrow> c
      | Some l \<Rightarrow> l)"

text \<open>\<^verbatim>\<open>String.prototype.toLowerCase\<close> on the letters of ASCII.\<close>

definition toLowerCase :: "string \<Rightarrow> string" where
  "toLowerCase str = map lower_char str"

text \<open>
  \<^verbatim>\<open>#getColorForRole\<close>. The role of a module is \<^verbatim>\<open>undefined\<close> when the item has no
  role (or a role without keys), and \<^verbatim>\<open>role.toLowerCase()\<close> then throws.
\<close>

definition getColorForRole :: "string option \<Rightarrow> error + string" where
  "getColorForRole r =
     (case r of
        None \<Rightarrow> Inl (TypeError ''Cannot read properties of undefined (reading 'toLowerCase')'')
      | Some str \<Rightarrow>
          (let l = toLowerCase str
           in if l = ''source'' then Inr ''#00008B''
              else if l = ''proc'' then Inr ''#FF8C00''
              else if l = ''dest'' then Inr ''#006400''
              else Inr ''#333333''))"

record layout_button =
  label :: string
  backgroundColor :: string
  textColor :: string
  fontSize :: nat
  lmodule :: module

text \<open>The \<^verbatim>\<open>map\<close> of \<^verbatim>\<open>showModules\<close>; the first module whose colour throws ends it.\<close>

fun layout_of :: "module list \<Rightarrow> error + layout_button list" where
  "layout_of [] = Inr []"
| "layout_of (m # ms) =
     (case getColorForRole (role m) of
        Inl e \<Rightarrow> Inl e
      | Inr c \<Rightarrow>
          (case layout_of ms of
             Inl e \<Rightarrow> Inl e
           | Inr bs \<Rightarrow>
               Inr (\<lparr>label = or_default (deviceName m) ''Unknown Device'',
                     backgroundColor = c, textColor = ''#ffffff'', fontSize = 12,
                     lmodule = m\<rparr> # bs)))"

text \<open>
  The loop of \<^verbatim>\<open>createCustomLayout\<close> over \<^verbatim>\<open>layout.entries()\<close>, left at index 30.
\<close>

fun createCustomLayout_loop :: "nat \<Rightarrow> layout_button list \<Rightarrow> controller \<Rightarrow> controller" where
  "createCustomLayout_loop index [] s = s"
| "createCustomLayout_loop index (button # rest) s =
     (if index \<ge> 30 then s
      else (let buttonIndex = int index + 2
            in createCustomLayout_loop (index + 1) rest
                 (registerButtonAction (Bare buttonIndex)
                    (Some (ModulePressed (label button) (lmodule button))) None
                    (ModuleInfo (label button) (role (lmodule button)))
                    (setButtonText (Bare buttonIndex) (label button)
                       \<lparr>o_fontSize = Some (fontSize button), o_color = Some (textColor button),
                        o_backgroundColor = Some (backgroundColor button),
                        o_cornerRadius = None, o_midiChannel = None\<rparr> s))))"

definition createCustomLayout :: "layout_button list \<Rightarrow> controller \<Rightarrow> controller" where
  "createCustomLayout layout s =
     (case streamDeck s of None \<Rightarrow> s | Some d \<Rightarrow> createCustomLayout_loop 0 layout s)"

text \<open>
  A method that may throw returns the exception, if any, beside the controller as the
  exception leaves it.
\<close>

definition showModules :: "chain \<Rightarrow> controller \<Rightarrow> error option \<times> controller" where
  "showModules chain s =
     (case layout_of (modules chain) of
        Inl e \<Rightarrow> (Some e, s)
      | Inr layout \<Rightarrow> (None, createCustomLayout layout s))"

definition createChainNameButton :: "string \<Rightarrow> controller \<Rightarrow> error option \<times> controller" where
  "createChainNameButton chainName s =
     (case currentChain s of
        None \<Rightarrow> (Some (TypeError ''Cannot read properties of null (reading 'midiChannel')''), s)
      | Some cur \<Rightarrow>
          (None,
           registerButtonAction (Bare 1) (Some (CurrentChainPressed chainName)) None
             (CurrentChainInfo chainName)
             (setButtonText (Bare 1) chainName (chain_options (midiChannel cur)) s)))"

definition loadChain :: "chain \<Rightarrow> controller \<Rightarrow> error option \<times> controller" where
  "loadChain chain s =
     (case createChainNameButton (name chain)
             (createShowChainsButton (resetDeck (s\<lparr>currentChain := Some chain\<rparr>))) of
        (Some e, s') \<Rightarrow> (Some e, s')
      | (None, s') \<Rightarrow> showModules chain s')"

subsection \<open>Key events\<close>

definition handleKeyPress :: "raw_key \<Rightarrow> controller \<Rightarrow> error option \<times> controller" where
  "handleKeyPress keyIndex s =
     (let index = getKeyIndex keyIndex
      in if index = 0 then (None, showChains s)
         else (let buttonText = getButtonText (Bare index) s
               in case find (\<lambda>c. name c = buttonText) (chains s) of
                    Some chain \<Rightarrow> loadChain chain s
                  | None \<Rightarrow> (None, s)))"

definition handleKeyRelease :: "raw_key \<Rightarrow> controller \<Rightarrow> controller" where
  "handleKeyRelease keyIndex s =
     (case buttonStates s (Number keyIndex) of
        None \<Rightarrow> s
      | Some buttonState \<Rightarrow>
          (case releaseCallback buttonState of
             None \<Rightarrow> s
           | Some cb \<Rightarrow> invoke cb (KeyArg keyIndex) s))"

subsection \<open>Loading the catalog\<close>

text \<open>
  The decoded document, as far as \<^verbatim>\<open>loadChainLayout\<close> reads it, when its parts have the
  types the method expects (the documents with \<^verbatim>\<open>null\<close> or mistyped parts are values of
  the type \<open>js\<close> further down). A field that may be missing is an option; the elements
  of an array are objects. \<open>rs_role\<close> is the list of
  the keys of the role object, in the order of \<^verbatim>\<open>Object.keys\<close>; \<open>doc_chains\<close> lists the
  entries of \<^verbatim>\<open>data.chains\<close> in the order of \<^verbatim>\<open>Object.values\<close>.
\<close>

record raw_side =
  rs_name :: "string option"
  rs_device :: "string option option"
  rs_role :: "string list option"
  rs_midi :: "int option option"
  rs_phonia :: "string option"
  rs_tags :: "string list option"

record raw_item =
  item_L :: "raw_side option"
  item_R :: "raw_side option"

record raw_cell =
  cell_items :: "raw_item list option"
  cell_ab :: "string option"

record raw_lane =
  lane_cells :: "raw_cell list option"

record raw_state =
  st_name :: "string option"
  st_midiChannel :: "int option"

record raw_chain =
  rc_state :: "raw_state option"
  rc_id :: "string option"
  rc_cond :: "bool option option"
  rc_lanes :: "raw_lane list option"

record raw_doc =
  doc_chains :: "(string \<times> raw_chain) list option"

definition side_of :: "raw_item \<Rightarrow> channel \<Rightarrow> raw_side option" where
  "side_of item ch = (case ch of L \<Rightarrow> item_L item | R \<Rightarrow> item_R item)"

definition module_of :: "raw_cell \<Rightarrow> channel \<Rightarrow> raw_side \<Rightarrow> module" where
  "module_of cell ch side =
     \<lparr>m_name = rs_name side,
      deviceName = (case rs_device side of None \<Rightarrow> None | Some dev \<Rightarrow> dev),
      role = (case rs_role side of None \<Rightarrow> None | Some [] \<Rightarrow> None | Some (k # ks) \<Rightarrow> Some k),
      midiNote = (case rs_midi side of None \<Rightarrow> None | Some midi \<Rightarrow> midi),
      channel = ch,
      phonia = rs_phonia side,
      tags = rs_tags side,
      ab = cell_ab cell\<rparr>"

text \<open>\<^verbatim>\<open>['L', 'R'].filter(ch => item[ch]).map(ch => ...)\<close>\<close>

definition item_modules :: "raw_cell \<Rightarrow> raw_item \<Rightarrow> module list" where
  "item_modules cell item =
     concat (map (\<lambda>ch. case side_of item ch of None \<Rightarrow> [] | Some side \<Rightarrow> [module_of cell ch side])
               [L, R])"

text \<open>\<^verbatim>\<open>cell.items?.flatMap(...) ?? []\<close>\<close>

definition cell_modules :: "raw_cell \<Rightarrow> module list" where
  "cell_modules cell =
     (case cell_items cell of None \<Rightarrow> [] | Some its \<Rightarrow> concat (map (item_modules cell) its))"

text \<open>
  \<^verbatim>\<open>chain.lanes?.[0].cells?.flatMap(...) ?? []\<close>: with \<^verbatim>\<open>lanes\<close> present and empty,
  \<^verbatim>\<open>lanes[0]\<close> is \<^verbatim>\<open>undefined\<close> and reading \<^verbatim>\<open>.cells\<close> of it throws.
\<close>

definition chain_modules :: "raw_chain \<Rightarrow> error + module list" where
  "chain_modules rc =
     (case rc_lanes rc of
        None \<Rightarrow> Inr []
      | Some [] \<Rightarrow> Inl (TypeError ''Cannot read properties of undefined (reading 'cells')'')
      | Some (lane # ls) \<Rightarrow>
          (case lane_cells lane of
             None \<Rightarrow> Inr []
           | Some cs \<Rightarrow> Inr (concat (map cell_modules cs))))"

definition chain_of :: "raw_chain \<Rightarrow> error + chain" where
  "chain_of rc =
     (case chain_modules rc of
        Inl e \<Rightarrow> Inl e
      | Inr ms \<Rightarrow>
          Inr \<lparr>name = or_default (case rc_state rc of None \<Rightarrow> None | Some st \<Rightarrow> st_name st)
                        ''Unnamed Chain'',
               chain_id = rc_id rc,
               midiChannel = (case rc_state rc of None \<Rightarrow> None | Some st \<Rightarrow> st_midiChannel st),
               active = (case rc_cond rc of None \<Rightarrow> False | Some None \<Rightarrow> False | Some (Some b) \<Rightarrow> b),
               modules = ms\<rparr>)"

text \<open>\<^verbatim>\<open>xs.map(f)\<close> for an \<open>f\<close> that may throw.\<close>

fun map_throwing :: "('a \<Rightarrow> error + 'b) \<Rightarrow> 'a list \<Rightarrow> error + 'b list" where
  "map_throwing f [] = Inr []"
| "map_throwing f (x # xs) =
     (case f x of
        Inl e \<Rightarrow> Inl e
      | Inr y \<Rightarrow> (case map_throwing f xs of Inl e \<Rightarrow> Inl e | Inr ys \<Rightarrow> Inr (y # ys)))"

text \<open>\<^verbatim>\<open>Object.values(data.chains).map(chain => ...)\<close>\<close>

definition normalize_doc :: "raw_doc \<Rightarrow> error + chain list" where
  "normalize_doc data =
     (case doc_chains data of
        None \<Rightarrow> Inl (TypeError ''Cannot convert undefined or null to object'')
      | Some entries \<Rightarrow> map_throwing chain_of (map snd entries))"

definition log_error :: "error \<Rightarrow> controller \<Rightarrow> controller" where
  "log_error e s = s\<lparr>console_errors := console_errors s @ [e]\<rparr>"

text \<open>
  \<^verbatim>\<open>loadChainLayout\<close>, from the decoded document on (\<open>Inl\<close>: reading or parsing the
  file threw). \<^verbatim>\<open>this.#chains\<close> is assigned before its length is looked at; every
  exception is caught and logged.
\<close>

definition loadChainLayout :: "error + raw_doc \<Rightarrow> controller \<Rightarrow> controller" where
  "loadChainLayout src s =
     (case src of
        Inl e \<Rightarrow> log_error e s
      | Inr data \<Rightarrow>
          (case normalize_doc data of
             Inl e \<Rightarrow> log_error e s
           | Inr cs \<Rightarrow>
               (let s' = s\<lparr>chains := cs\<rparr>
                in if length (chains s') = 0
                   then log_error (Error ''No chains found in the JSON file.'') s'
                   else showChains s')))"

subsection \<open>Loading the catalog: any decoded document\<close>

text \<open>
  The records above are the documents whose parts have the expected types. What
  \<^verbatim>\<open>JSON.parse\<close> returns is any value of the type \<open>js\<close> (numbers are taken to be
  integers, an object lists its properties in the order of \<^verbatim>\<open>Object.keys\<close>, each
  key once); \<open>JUndefined\<close> is what reading a missing property gives. The
  lines 255 to 275 of \<^verbatim>\<open>loadChainLayout\<close> are modelled once more on these values, with
  every read that can throw.
\<close>

datatype js =
    JUndefined
  | JNull
  | JBool bool
  | JNumber int
  | JString string
  | JArray "js list"
  | JObject "(string \<times> js) list"

definition nullish :: "js \<Rightarrow> bool" where
  "nullish v = (v = JUndefined \<or> v = JNull)"

fun truthy :: "js \<Rightarrow> bool" where
  "truthy JUndefined = False"
| "truthy JNull = False"
| "truthy (JBool b) = b"
| "truthy (JNumber n) = (n \<noteq> 0)"
| "truthy (JString str) = (str \<noteq> [])"
| "truthy (JArray xs) = True"
| "truthy (JObject kvs) = True"

text \<open>
  \<^verbatim>\<open>v.p\<close> for a \<open>v\<close> that is neither \<^verbatim>\<open>null\<close> nor \<^verbatim>\<open>undefined\<close>, and for the property
  names that \<^verbatim>\<open>loadChainLayout\<close> reads: none of them is a property of an array, a string,
  a number or a boolean.
\<close>

definition prop_of :: "js \<Rightarrow> string \<Rightarrow> js" where
  "prop_of v p =
     (case v of
        JObject kvs \<Rightarrow> (case map_of kvs p of None \<Rightarrow> JUndefined | Some x \<Rightarrow> x)
      | _ \<Rightarrow> JUndefined)"

definition cannot_read :: "js \<Rightarrow> string \<Rightarrow> error" where
  "cannot_read v p =
     TypeError (''Cannot read properties of '' @ (if v = JNull then ''null'' else ''undefined'')
                @ '' (reading '' @ [CHR 0x27] @ p @ [CHR 0x27] @ '')'')"

text \<open>\<^verbatim>\<open>v.p\<close>, which throws on \<^verbatim>\<open>null\<close> and \<^verbatim>\<open>undefined\<close>.\<close>

definition get_prop :: "js \<Rightarrow> string \<Rightarrow> error + js" where
  "get_prop v p = (if nullish v then Inl (cannot_read v p) else Inr (prop_of v p))"

text \<open>\<^verbatim>\<open>v?.p\<close>\<close>

definition opt_prop :: "js \<Rightarrow> string \<Rightarrow> js" where
  "opt_prop v p = (if nullish v then JUndefined else prop_of v p)"

text \<open>\<^verbatim>\<open>v[0]\<close> for a \<open>v\<close> that is neither \<^verbatim>\<open>null\<close> nor \<^verbatim>\<open>undefined\<close>.\<close>

definition first_element :: "js \<Rightarrow> js" where
  "first_element v =
     (case v of
        JArray xs \<Rightarrow> (case xs of [] \<Rightarrow> JUndefined | x # _ \<Rightarrow> x)
      | JString str \<Rightarrow> (case str of [] \<Rightarrow> JUndefined | c # _ \<Rightarrow> JString [c])
      | JObject kvs \<Rightarrow> prop_of (JObject kvs) ''0''
      | _ \<Rightarrow> JUndefined)"

text \<open>\<^verbatim>\<open>a || b\<close>\<close>

definition js_or :: "js \<Rightarrow> js \<Rightarrow> js" where
  "js_or a b = (if truthy a then a else b)"

text \<open>\<^verbatim>\<open>Object.keys(v)\<close> and \<^verbatim>\<open>Object.values(v)\<close> for a \<open>v\<close> that is neither \<^verbatim>\<open>null\<close> nor
  \<^verbatim>\<open>undefined\<close>.\<close>

definition own_keys :: "js \<Rightarrow> string list" where
  "own_keys v =
     (case v of
        JObject kvs \<Rightarrow> map fst kvs
      | JArray xs \<Rightarrow> map string_of_nat [0..<length xs]
      | JString str \<Rightarrow> map string_of_nat [0..<length str]
      | _ \<Rightarrow> [])"

definition own_values :: "js \<Rightarrow> js list" where
  "own_values v =
     (case v of
        JObject kvs \<Rightarrow> map snd kvs
      | JArray xs \<Rightarrow> xs
      | JString str \<Rightarrow> map (\<lambda>c. JString [c]) str
      | _ \<Rightarrow> [])"

definition object_values :: "js \<Rightarrow> error + js list" where
  "object_values v =
     (if nullish v then Inl (TypeError ''Cannot convert undefined or null to object'')
      else Inr (own_values v))"

text \<open>
  \<^verbatim>\<open>v?.flatMap(f) ?? []\<close> for an \<open>f\<close> that returns arrays: only an array has
  \<^verbatim>\<open>flatMap\<close>, and calling what is not a function throws.
\<close>

definition flatMap_or_empty :: "js \<Rightarrow> (js \<Rightarrow> error + 'a list) \<Rightarrow> error + 'a list" where
  "flatMap_or_empty v f =
     (if nullish v then Inr []
      else case v of
             JArray xs \<Rightarrow>
               (case map_throwing f xs of Inl e \<Rightarrow> Inl e | Inr yss \<Rightarrow> Inr (concat yss))
           | _ \<Rightarrow> Inl (TypeError ''flatMap is not a function''))"

record jmodule =
  jm_name :: js
  jm_deviceName :: js
  jm_role :: "string option"
  jm_midiNote :: js
  jm_channel :: channel
  jm_phonia :: js
  jm_tags :: js
  jm_ab :: js

record jchain =
  j_name :: js
  j_id :: js
  j_midiChannel :: js
  j_active :: js
  j_modules :: "jmodule list"

definition channel_key :: "channel \<Rightarrow> string" where
  "channel_key ch = (case ch of L \<Rightarrow> ''L'' | R \<Rightarrow> ''R'')"

text \<open>The object built for \<^verbatim>\<open>item[ch]\<close>, which is truthy there.\<close>

definition jmodule_of :: "js \<Rightarrow> channel \<Rightarrow> js \<Rightarrow> jmodule" where
  "jmodule_of cell ch side =
     \<lparr>jm_name = prop_of side ''name'',
      jm_deviceName = opt_prop (prop_of side ''device'') ''name'',
      jm_role = (case own_keys (js_or (prop_of side ''role'') (JObject [])) of
                   [] \<Rightarrow> None
                 | k # ks \<Rightarrow> Some k),
      jm_midiNote = opt_prop (prop_of side ''midi'') ''note'',
      jm_channel = ch,
      jm_phonia = prop_of side ''phonia'',
      jm_tags = prop_of side ''tags'',
      jm_ab = prop_of cell ''ab''\<rparr>"

text \<open>The callback of the inner \<^verbatim>\<open>flatMap\<close>: \<^verbatim>\<open>item[ch]\<close> throws for an item that is
  \<^verbatim>\<open>null\<close>.\<close>

definition jitem_modules :: "js \<Rightarrow> js \<Rightarrow> error + jmodule list" where
  "jitem_modules cell item =
     (if nullish item then Inl (cannot_read item ''L'')
      else Inr (concat (map (\<lambda>ch. if truthy (prop_of item (channel_key ch))
                                    then [jmodule_of cell ch (prop_of item (channel_key ch))]
                                    else [])
                          [L, R])))"

text \<open>The callback of the outer \<^verbatim>\<open>flatMap\<close>: \<^verbatim>\<open>cell.items\<close> throws for a cell that is
  \<^verbatim>\<open>null\<close>.\<close>

definition jcell_modules :: "js \<Rightarrow> error + jmodule list" where
  "jcell_modules cell =
     (if nullish cell then Inl (cannot_read cell ''items'')
      else flatMap_or_empty (prop_of cell ''items'') (jitem_modules cell))"

text \<open>\<^verbatim>\<open>chain.lanes?.[0].cells?.flatMap(...) ?? []\<close>, for a chain that is not \<^verbatim>\<open>null\<close>.\<close>

definition jchain_modules :: "js \<Rightarrow> error + jmodule list" where
  "jchain_modules chain =
     (let lanes = prop_of chain ''lanes''
      in if nullish lanes then Inr []
         else case get_prop (first_element lanes) ''cells'' of
                Inl e \<Rightarrow> Inl e
              | Inr cells \<Rightarrow> flatMap_or_empty cells jcell_modules)"

text \<open>The callback of the \<^verbatim>\<open>map\<close>; \<^verbatim>\<open>chain.state\<close> is read first.\<close>

definition jchain_of :: "js \<Rightarrow> error + jchain" where
  "jchain_of chain =
     (case get_prop chain ''state'' of
        Inl e \<Rightarrow> Inl e
      | Inr st \<Rightarrow>
          (case jchain_modules chain of
             Inl e \<Rightarrow> Inl e
           | Inr ms \<Rightarrow>
               Inr \<lparr>j_name = js_or (opt_prop st ''name'') (JString ''Unnamed Chain''),
                    j_id = prop_of chain ''id'',
                    j_midiChannel = opt_prop st ''midiChannel'',
                    j_active = js_or (opt_prop (prop_of chain ''cond'') ''active'') (JBool False),
                    j_modules = ms\<rparr>))"

text \<open>\<^verbatim>\<open>Object.values(data.chains).map(chain => ...)\<close>\<close>

definition normalize_js :: "js \<Rightarrow> error + jchain list" where
  "normalize_js data =
     (case get_prop data ''chains'' of
        Inl e \<Rightarrow> Inl e
      | Inr cs \<Rightarrow>
          (case object_values cs of
             Inl e \<Rightarrow> Inl e
           | Inr vs \<Rightarrow> map_throwing jchain_of vs))"

text \<open>
  The documents of the records among all decoded documents: a field that is \<open>None\<close> is
  a property that is missing. \<open>normalize_doc_refines\<close> below shows that \<open>normalize_doc\<close> is
  \<open>normalize_js\<close> on them.
\<close>

definition obj_of :: "(string \<times> js option) list \<Rightarrow> js" where
  "obj_of kvs = JObject (List.map_filter (\<lambda>(k, v). map_option (Pair k) v) kvs)"

definition js_of_side :: "raw_side \<Rightarrow> js" where
  "js_of_side side =
     obj_of [(''name'', map_option JString (rs_name side)),
             (''device'', map_option (\<lambda>d. obj_of [(''name'', map_option JString d)]) (rs_device side)),
             (''role'', map_option (\<lambda>ks. JObject (map (\<lambda>k. (k, JObject [])) ks)) (rs_role side)),
             (''midi'', map_option (\<lambda>m. obj_of [(''note'', map_option JNumber m)]) (rs_midi side)),
             (''phonia'', map_option JString (rs_phonia side)),
             (''tags'', map_option (\<lambda>ts. JArray (map JString ts)) (rs_tags side))]"

definition js_of_item :: "raw_item \<Rightarrow> js" where
  "js_of_item item =
     obj_of [(''L'', map_option js_of_side (item_L item)),
             (''R'', map_option js_of_side (item_R item))]"

definition js_of_cell :: "raw_cell \<Rightarrow> js" where
  "js_of_cell cell =
     obj_of [(''items'', map_option (\<lambda>its. JArray (map js_of_item its)) (cell_items cell)),
             (''ab'', map_option JString (cell_ab cell))]"

definition js_of_lane :: "raw_lane \<Rightarrow> js" where
  "js_of_lane lane =
     obj_of [(''cells'', map_option (\<lambda>cs. JArray (map js_of_cell cs)) (lane_cells lane))]"

definition js_of_state :: "raw_state \<Rightarrow> js" where
  "js_of_state st =
     obj_of [(''name'', map_option JString (st_name st)),
             (''midiChannel'', map_option JNumber (st_midiChannel st))]"

definition js_of_raw_chain :: "raw_chain \<Rightarrow> js" where
  "js_of_raw_chain rc =
     obj_of [(''state'', map_option js_of_state (rc_state rc)),
             (''id'', map_option JString (rc_id rc)),
             (''cond'', map_option (\<lambda>a. obj_of [(''active'', map_option JBool a)]) (rc_cond rc)),
             (''lanes'', map_option (\<lambda>ls. JArray (map js_of_lane ls)) (rc_lanes rc))]"

definition js_of_doc :: "raw_doc \<Rightarrow> js" where
  "js_of_doc d =
     obj_of [(''chains'',
              map_option (\<lambda>entries. JObject (map (\<lambda>(k, rc). (k, js_of_raw_chain rc)) entries))
                (doc_chains d))]"

definition js_opt :: "('a \<Rightarrow> js) \<Rightarrow> 'a option \<Rightarrow> js" where
  "js_opt f x = (case x of None \<Rightarrow> JUndefined | Some v \<Rightarrow> f v)"

definition js_of_module :: "module \<Rightarrow> jmodule" where
  "js_of_module m =
     \<lparr>jm_name = js_opt JString (m_name m),
      jm_deviceName = js_opt JString (deviceName m),
      jm_role = role m,
      jm_midiNote = js_opt JNumber (midiNote m),
      jm_channel = channel m,
      jm_phonia = js_opt JString (phonia m),
      jm_tags = js_opt (\<lambda>ts. JArray (map JString ts)) (tags m),
      jm_ab = js_opt JString (ab m)\<rparr>"

definition js_of_chain :: "chain \<Rightarrow> jchain" where
  "js_of_chain c =
     \<lparr>j_name = JString (name c),
      j_id = js_opt JString (chain_id c),
      j_midiChannel = js_opt JNumber (midiChannel c),
      j_active = JBool (active c),
      j_modules = map js_of_module (modules c)\<rparr>"

text \<open>
  The documents whose present parts have the shape that \<^verbatim>\<open>loadChainLayout\<close> reads
  without a check: \<^verbatim>\<open>chains\<close> is there; no chain, cell or item is \<^verbatim>\<open>null\<close>; \<^verbatim>\<open>lanes\<close>,
  where it is there, has a first element that is not \<^verbatim>\<open>null\<close>; \<^verbatim>\<open>cells\<close> and \<^verbatim>\<open>items\<close>,
  where they are there, are arrays.
\<close>

definition shaped_cell :: "js \<Rightarrow> bool" where
  "shaped_cell cell =
     (\<not> nullish cell
      \<and> (case prop_of cell ''items'' of
            JArray its \<Rightarrow> list_all (\<lambda>item. \<not> nullish item) its
          | v \<Rightarrow> nullish v))"

definition shaped_chain :: "js \<Rightarrow> bool" where
  "shaped_chain chain =
     (\<not> nullish chain
      \<and> (nullish (prop_of chain ''lanes'')
          \<or> (\<not> nullish (first_element (prop_of chain ''lanes''))
              \<and> (case prop_of (first_element (prop_of chain ''lanes'')) ''cells'' of
                    JArray cs \<Rightarrow> list_all shaped_cell cs
                  | v \<Rightarrow> nullish v))))"

definition shaped :: "js \<Rightarrow> bool" where
  "shaped data =
     (\<not> nullish data \<and> \<not> nullish (prop_of data ''chains'')
      \<and> list_all shaped_chain (own_values (prop_of data ''chains'')))"

text \<open>
  The sides a chain is to give modules for, after the words of the specification: the
  cells of the first lane in order, for each cell its items in order, for each item the
  left side before the right one, a side counting when it is there (truthy). Each side
  comes with its cell and its channel.
\<close>

definition first_lane_cells :: "js \<Rightarrow> js list" where
  "first_lane_cells chain =
     (if nullish (prop_of chain ''lanes'') then []
      else case prop_of (first_element (prop_of chain ''lanes'')) ''cells'' of
             JArray cs \<Rightarrow> cs
           | _ \<Rightarrow> [])"

definition items_of_cell :: "js \<Rightarrow> js list" where
  "items_of_cell cell = (case prop_of cell ''items'' of JArray its \<Rightarrow> its | _ \<Rightarrow> [])"

definition sides_of_item :: "js \<Rightarrow> js \<Rightarrow> (js \<times> channel \<times> js) list" where
  "sides_of_item cell item =
     map (\<lambda>ch. (cell, ch, prop_of item (channel_key ch)))
       (filter (\<lambda>ch. truthy (prop_of item (channel_key ch))) [L, R])"

definition expected_sides :: "js \<Rightarrow> (js \<times> channel \<times> js) list" where
  "expected_sides chain =
     concat (map (\<lambda>cell. concat (map (sides_of_item cell) (items_of_cell cell)))
               (first_lane_cells chain))"

subsection \<open>Observing the controller\<close>

text \<open>What the device shows (nothing without a device), and which writes it takes.\<close>

definition panel_of :: "controller \<Rightarrow> int \<rightharpoonup> face" where
  "panel_of s = (case streamDeck s of None \<Rightarrow> Map.empty | Some d \<Rightarrow> panel d)"

definition dev_accepts :: "controller \<Rightarrow> int \<Rightarrow> face \<Rightarrow> bool" where
  "dev_accepts s k f = (case streamDeck s of None \<Rightarrow> False | Some d \<Rightarrow> accepts d k f)"

text \<open>The faces drawn by \<^verbatim>\<open>createShowChainsButton\<close>, for a chain, and for a module.\<close>

definition showChains_face :: face where
  "showChains_face =
     face_of ''Show Chains''
       \<lparr>o_fontSize = Some 16, o_color = Some ''#ffffff'', o_backgroundColor = Some ''#FF0000'',
        o_cornerRadius = None, o_midiChannel = None\<rparr>"

definition chain_face :: "chain \<Rightarrow> face" where
  "chain_face c = face_of (name c) (chain_options (midiChannel c))"

definition button_face :: "layout_button \<Rightarrow> face" where
  "button_face b =
     face_of (label b)
       \<lparr>o_fontSize = Some (fontSize b), o_color = Some (textColor b),
        o_backgroundColor = Some (backgroundColor b), o_cornerRadius = None,
        o_midiChannel = None\<rparr>"

definition module_state :: "layout_button \<Rightarrow> button_state" where
  "module_state b =
     \<lparr>pressCallback = Some (ModulePressed (label b) (lmodule b)), releaseCallback = None,
      info = ModuleInfo (label b) (role (lmodule b))\<rparr>"

text \<open>
  Key presses one after the other, each handled to its end (all the \<^verbatim>\<open>await\<close>s of its
  redraw) before the next key event is delivered; an exception ends the run.
\<close>

fun presses :: "raw_key list \<Rightarrow> controller \<Rightarrow> error option \<times> controller" where
  "presses [] s = (None, s)"
| "presses (k # ks) s =
     (case handleKeyPress k s of
        (Some e, s') \<Rightarrow> (Some e, s')
      | (None, s') \<Rightarrow> presses ks s')"

text \<open>The button states registered for the chain header and for a module.\<close>

definition header_state :: "chain \<Rightarrow> button_state" where
  "header_state c =
     \<lparr>pressCallback = Some (CurrentChainPressed (name c)), releaseCallback = None,
      info = CurrentChainInfo (name c)\<rparr>"

definition module_label :: "module \<Rightarrow> string" where
  "module_label m = or_default (deviceName m) ''Unknown Device''"

text \<open>The face of the key of a module, once its colour is known.\<close>

definition module_face :: "module \<Rightarrow> string \<Rightarrow> face" where
  "module_face m col =
     face_of (module_label m)
       \<lparr>o_fontSize = Some 12, o_color = Some ''#ffffff'', o_backgroundColor = Some col,
        o_cornerRadius = None, o_midiChannel = None\<rparr>"

definition module_button_state :: "module \<Rightarrow> button_state" where
  "module_button_state m =
     \<lparr>pressCallback = Some (ModulePressed (module_label m) m), releaseCallback = None,
      info = ModuleInfo (module_label m) (role m)\<rparr>"

subsection \<open>A catalog of two chains\<close>

text \<open>A device with an empty panel that takes every write.\<close>

definition blank_device :: device where
  "blank_device = \<lparr>panel = Map.empty, brightness = 0, accepts = (\<lambda>k f. True)\<rparr>"

definition side_named :: "string \<Rightarrow> string option \<Rightarrow> string list option \<Rightarrow> raw_side" where
  "side_named n dev r =
     \<lparr>rs_name = Some n, rs_device = Some dev, rs_role = r, rs_midi = None, rs_phonia = None,
      rs_tags = None\<rparr>"

definition drums_raw :: raw_chain where
  "drums_raw =
     \<lparr>rc_state = Some \<lparr>st_name = Some ''Drums'', st_midiChannel = Some 10\<rparr>,
      rc_id = Some ''c1'', rc_cond = Some (Some True),
      rc_lanes = Some [\<lparr>lane_cells = Some
        [\<lparr>cell_items = Some
            [\<lparr>item_L = Some (side_named ''m1'' (Some ''Synth A'') (Some [''source''])),
              item_R = Some (side_named ''m2'' (Some ''Comp 1'') (Some [''proc'']))\<rparr>],
          cell_ab = None\<rparr>]\<rparr>]\<rparr>"

definition bass_raw :: raw_chain where
  "bass_raw =
     \<lparr>rc_state = Some \<lparr>st_name = Some ''Bass'', st_midiChannel = None\<rparr>,
      rc_id = Some ''c2'', rc_cond = None, rc_lanes = None\<rparr>"

definition two_chains_doc :: raw_doc where
  "two_chains_doc = \<lparr>doc_chains = Some [(''a'', drums_raw), (''b'', bass_raw)]\<rparr>"

definition synth_a :: module where
  "synth_a =
     \<lparr>m_name = Some ''m1'', deviceName = Some ''Synth A'', role = Some ''source'',
      midiNote = None, channel = L, phonia = None, tags = None, ab = None\<rparr>"

definition comp_1 :: module where
  "comp_1 =
     \<lparr>m_name = Some ''m2'', deviceName = Some ''Comp 1'', role = Some ''proc'',
      midiNote = None, channel = R, phonia = None, tags = None, ab = None\<rparr>"

definition drums :: chain where
  "drums =
     \<lparr>name = ''Drums'', chain_id = Some ''c1'', midiChannel = Some 10, active = True,
      modules = [synth_a, comp_1]\<rparr>"

definition bass :: chain where
  "bass =
     \<lparr>name = ''Bass'', chain_id = Some ''c2'', midiChannel = None, active = False,
      modules = []\<rparr>"

text \<open>The controller once the device is opened and the deck reset.\<close>

definition started :: controller where
  "started = resetDeck (initial (Some blank_device))"

text \<open>The controller after the load of that catalog.\<close>

definition loaded :: controller where
  "loaded = loadChainLayout (Inr two_chains_doc) started"

subsection \<open>More catalogs\<close>

text \<open>A document of \<open>n\<close> chains without lanes, named \<^verbatim>\<open>Chain 0\<close>, \<^verbatim>\<open>Chain 1\<close>, ...\<close>

definition numbered_raw :: "nat \<Rightarrow> raw_chain" where
  "numbered_raw i =
     \<lparr>rc_state = Some \<lparr>st_name = Some (''Chain '' @ string_of_nat i), st_midiChannel = None\<rparr>,
      rc_id = Some (string_of_nat i), rc_cond = None, rc_lanes = None\<rparr>"

definition numbered_chain :: "nat \<Rightarrow> chain" where
  "numbered_chain i =
     \<lparr>name = ''Chain '' @ string_of_nat i, chain_id = Some (string_of_nat i),
      midiChannel = None, active = False, modules = []\<rparr>"

definition numbered_doc :: "nat \<Rightarrow> raw_doc" where
  "numbered_doc n = \<lparr>doc_chains = Some (map (\<lambda>i. (string_of_nat i, numbered_raw i)) [0..<n])\<rparr>"

definition catalog35 :: controller where
  "catalog35 = loadChainLayout (Inr (numbered_doc 35)) started"

text \<open>A document without chains, one whose chain has an empty list of lanes, and one
  whose only module has a name and nothing else.\<close>

definition empty_doc :: raw_doc where
  "empty_doc = \<lparr>doc_chains = Some []\<rparr>"

definition no_lane_doc :: raw_doc where
  "no_lane_doc =
     \<lparr>doc_chains = Some [(''a'', \<lparr>rc_state = None, rc_id = None, rc_cond = None,
                                  rc_lanes = Some []\<rparr>)]\<rparr>"

definition bare_side :: raw_side where
  "bare_side =
     \<lparr>rs_name = Some ''m'', rs_device = None, rs_role = None, rs_midi = None, rs_phonia = None,
      rs_tags = None\<rparr>"

definition bare_cell :: raw_cell where
  "bare_cell = \<lparr>cell_items = Some [\<lparr>item_L = Some bare_side, item_R = None\<rparr>], cell_ab = None\<rparr>"

definition bare_doc :: raw_doc where
  "bare_doc =
     \<lparr>doc_chains = Some [(''a'', \<lparr>rc_state = None, rc_id = None, rc_cond = None,
                                  rc_lanes = Some [\<lparr>lane_cells = Some [bare_cell]\<rparr>]\<rparr>)]\<rparr>"

definition bare_module :: module where
  "bare_module =
     \<lparr>m_name = Some ''m'', deviceName = None, role = None, midiNote = None, channel = L,
      phonia = None, tags = None, ab = None\<rparr>"

text \<open>The same three documents as \<^verbatim>\<open>JSON.parse\<close> returns them, and two more: a chain
  that is \<^verbatim>\<open>null\<close>, and a first lane that is \<^verbatim>\<open>null\<close>.\<close>

definition no_lane_js :: js where
  "no_lane_js = JObject [(''chains'', JObject [(''a'', JObject [(''lanes'', JArray [])])])]"

definition bare_side_js :: js where
  "bare_side_js = JObject [(''name'', JString ''m'')]"

definition bare_cell_js :: js where
  "bare_cell_js = JObject [(''items'', JArray [JObject [(''L'', bare_side_js)]])]"

definition bare_chain_js :: js where
  "bare_chain_js = JObject [(''lanes'', JArray [JObject [(''cells'', JArray [bare_cell_js])]])]"

definition bare_js :: js where
  "bare_js = JObject [(''chains'', JObject [(''a'', bare_chain_js)])]"

definition null_chain_js :: js where
  "null_chain_js = JObject [(''chains'', JObject [(''a'', JNull)])]"

definition null_lane_js :: js where
  "null_lane_js = JObject [(''chains'', JObject [(''a'', JObject [(''lanes'', JArray [JNull])])])]"

text \<open>Two chains of the same name.\<close>

definition twins_doc :: raw_doc where
  "twins_doc =
     \<lparr>doc_chains = Some [(''a'', drums_raw), (''b'', bass_raw\<lparr>rc_state :=
        Some \<lparr>st_name = Some ''Drums'', st_midiChannel = None\<rparr>\<rparr>)]\<rparr>"

definition drums_twin :: chain where
  "drums_twin = bass\<lparr>name := ''Drums''\<rparr>"

definition twins :: controller where
  "twins = loadChainLayout (Inr twins_doc) started"

subsection \<open>Controllers in the chain view and with a registered key\<close>

text \<open>The catalog of two chains, after a press of key 1 (the slot of \<^verbatim>\<open>Drums\<close>).\<close>

definition drums_view :: controller where
  "drums_view = snd (handleKeyPress (Bare 1) loaded)"

text \<open>A caller of \<^verbatim>\<open>registerButtonAction\<close> gives key 3 a press and a release callback.\<close>

definition registered :: controller where
  "registered = registerButtonAction (Bare 3) (Some (External 1)) (Some (External 2)) NoInfo started"

text \<open>A chain \<^verbatim>\<open>Drums\<close> whose only module is a device called \<^verbatim>\<open>Bass\<close>, and the chain
  \<^verbatim>\<open>Bass\<close>.\<close>

definition alias_raw :: raw_chain where
  "alias_raw =
     \<lparr>rc_state = Some \<lparr>st_name = Some ''Drums'', st_midiChannel = None\<rparr>,
      rc_id = Some ''c1'', rc_cond = None,
      rc_lanes = Some [\<lparr>lane_cells = Some
        [\<lparr>cell_items = Some
            [\<lparr>item_L = Some (side_named ''m1'' (Some ''Bass'') (Some [''source''])),
              item_R = None\<rparr>],
          cell_ab = None\<rparr>]\<rparr>]\<rparr>"

definition alias_doc :: raw_doc where
  "alias_doc = \<lparr>doc_chains = Some [(''a'', alias_raw), (''b'', bass_raw)]\<rparr>"

definition alias_drums :: chain where
  "alias_drums =
     \<lparr>name = ''Drums'', chain_id = Some ''c1'', midiChannel = None, active = False,
      modules = [synth_a\<lparr>deviceName := Some ''Bass''\<rparr>]\<rparr>"

definition alias_view :: controller where
  "alias_view = snd (handleKeyPress (Bare 1) (loadChainLayout (Inr alias_doc) started))"

section \<open>Auxiliary facts\<close>

text \<open>What each method leaves alone, and the two views key by key.\<close>

lemma normalize_two_chains: "normalize_doc two_chains_doc = Inr [drums, bass]"
  by (simp add: normalize_doc_def two_chains_doc_def drums_raw_def bass_raw_def chain_of_def
      chain_modules_def cell_modules_def item_modules_def side_of_def module_of_def
      side_named_def or_default_def drums_def bass_def synth_a_def comp_1_def)

lemma getKeyIndex_Bare [simp]: "getKeyIndex (Bare k) = k" by simp

lemma setButtonText_fields [simp]:
  "chains (setButtonText k t o' s) = chains s"
  "currentChain (setButtonText k t o' s) = currentChain s"
  "buttonStates (setButtonText k t o' s) = buttonStates s"
  "fired (setButtonText k t o' s) = fired s"
  "left (setButtonText k t o' s) = left s"
  "right (setButtonText k t o' s) = right s"
  "dev_accepts (setButtonText k t o' s) = dev_accepts s"
  "(streamDeck (setButtonText k t o' s) = None) = (streamDeck s = None)"
  by (auto simp: setButtonText_def dev_accepts_def Let_def fun_eq_iff split: option.splits)

lemma setButtonText_texts:
  "buttonTexts (setButtonText k t o' s) =
     (if dev_accepts s (getKeyIndex k) (face_of t o') then (buttonTexts s)(getKeyIndex k \<mapsto> t)
      else buttonTexts s)"
  by (auto simp: setButtonText_def dev_accepts_def Let_def split: option.splits)

lemma setButtonText_panel:
  "panel_of (setButtonText k t o' s) =
     (if dev_accepts s (getKeyIndex k) (face_of t o') then (panel_of s)(getKeyIndex k \<mapsto> face_of t o')
      else panel_of s)"
  by (auto simp: setButtonText_def dev_accepts_def panel_of_def Let_def split: option.splits)

lemma registerButtonAction_fields [simp]:
  "chains (registerButtonAction k p r i s) = chains s"
  "currentChain (registerButtonAction k p r i s) = currentChain s"
  "buttonTexts (registerButtonAction k p r i s) = buttonTexts s"
  "fired (registerButtonAction k p r i s) = fired s"
  "left (registerButtonAction k p r i s) = left s"
  "right (registerButtonAction k p r i s) = right s"
  "dev_accepts (registerButtonAction k p r i s) = dev_accepts s"
  "panel_of (registerButtonAction k p r i s) = panel_of s"
  "streamDeck (registerButtonAction k p r i s) = streamDeck s"
  by (auto simp: registerButtonAction_def dev_accepts_def panel_of_def fun_eq_iff)

lemma resetDeck_fields [simp]:
  "chains (resetDeck s) = chains s"
  "currentChain (resetDeck s) = currentChain s"
  "fired (resetDeck s) = fired s"
  "left (resetDeck s) = left s"
  "right (resetDeck s) = right s"
  "dev_accepts (resetDeck s) = dev_accepts s"
  "(streamDeck (resetDeck s) = None) = (streamDeck s = None)"
  by (auto simp: resetDeck_def dev_accepts_def fun_eq_iff split: option.splits)

lemma resetDeck_clears:
  "streamDeck s \<noteq> None \<Longrightarrow> buttonTexts (resetDeck s) = Map.empty"
  "streamDeck s \<noteq> None \<Longrightarrow> buttonStates (resetDeck s) = Map.empty"
  "streamDeck s \<noteq> None \<Longrightarrow> panel_of (resetDeck s) = Map.empty"
  by (auto simp: resetDeck_def panel_of_def split: option.splits)

lemma showChains_loop_fields [simp]:
  "chains (showChains_loop i s) = chains s"
  "currentChain (showChains_loop i s) = currentChain s"
  "buttonStates (showChains_loop i s) = buttonStates s"
  "fired (showChains_loop i s) = fired s"
  "left (showChains_loop i s) = left s"
  "right (showChains_loop i s) = right s"
  "dev_accepts (showChains_loop i s) = dev_accepts s"
  "(streamDeck (showChains_loop i s) = None) = (streamDeck s = None)"
  by (induction i s rule: showChains_loop.induct;
      subst showChains_loop.simps; simp add: Let_def)+

lemma showChains_loop_texts:
  "buttonTexts (showChains_loop i s) k =
     (if int i + 1 \<le> k \<and> k \<le> int (min (length (chains s)) 31)
         \<and> dev_accepts s k (chain_face (chains s ! nat (k - 1)))
      then Some (name (chains s ! nat (k - 1)))
      else buttonTexts s k)"
proof (induction i s rule: showChains_loop.induct)
  case (1 i s)
  show ?case
  proof (cases "i < length (chains s) \<and> i < 31")
    case True
    have nat_eq: "nat (int i + 1 - 1) = i" by simp
    show ?thesis
      using True "1.IH" [OF True refl refl]
      by (subst showChains_loop.simps)
        (auto simp: Let_def setButtonText_texts chain_face_def nat_eq)
  next
    case False
    then show ?thesis
      by (subst showChains_loop.simps) auto
  qed
qed

lemma showChains_loop_panel:
  "panel_of (showChains_loop i s) k =
     (if int i + 1 \<le> k \<and> k \<le> int (min (length (chains s)) 31)
         \<and> dev_accepts s k (chain_face (chains s ! nat (k - 1)))
      then Some (chain_face (chains s ! nat (k - 1)))
      else panel_of s k)"
proof (induction i s rule: showChains_loop.induct)
  case (1 i s)
  show ?case
  proof (cases "i < length (chains s) \<and> i < 31")
    case True
    have nat_eq: "nat (int i + 1 - 1) = i" by simp
    show ?thesis
      using True "1.IH" [OF True refl refl]
      by (subst showChains_loop.simps)
        (auto simp: Let_def setButtonText_panel chain_face_def nat_eq)
  next
    case False
    then show ?thesis
      by (subst showChains_loop.simps) auto
  qed
qed

lemma createShowChainsButton_fields [simp]:
  "chains (createShowChainsButton s) = chains s"
  "currentChain (createShowChainsButton s) = currentChain s"
  "buttonStates (createShowChainsButton s) = buttonStates s"
  "fired (createShowChainsButton s) = fired s"
  "left (createShowChainsButton s) = left s"
  "right (createShowChainsButton s) = right s"
  "dev_accepts (createShowChainsButton s) = dev_accepts s"
  "(streamDeck (createShowChainsButton s) = None) = (streamDeck s = None)"
  by (simp_all add: createShowChainsButton_def)

lemma createShowChainsButton_texts:
  "buttonTexts (createShowChainsButton s) =
     (if dev_accepts s 0 showChains_face then (buttonTexts s)(0 \<mapsto> ''Show Chains'')
      else buttonTexts s)"
  by (simp add: createShowChainsButton_def setButtonText_texts showChains_face_def)

lemma createShowChainsButton_panel:
  "panel_of (createShowChainsButton s) =
     (if dev_accepts s 0 showChains_face then (panel_of s)(0 \<mapsto> showChains_face)
      else panel_of s)"
  by (simp add: createShowChainsButton_def setButtonText_panel showChains_face_def)

lemma showChains_fields [simp]:
  "chains (showChains s) = chains s"
  "currentChain (showChains s) = currentChain s"
  "fired (showChains s) = fired s"
  "left (showChains s) = left s"
  "right (showChains s) = right s"
  "dev_accepts (showChains s) = dev_accepts s"
  "(streamDeck (showChains s) = None) = (streamDeck s = None)"
  by (simp_all add: showChains_def)

text \<open>The catalog view, key by key.\<close>

lemma showChains_texts:
  assumes "streamDeck s \<noteq> None"
  shows "buttonTexts (showChains s) k =
     (if 1 \<le> k \<and> k \<le> int (min (length (chains s)) 31)
      then (if dev_accepts s k (chain_face (chains s ! nat (k - 1)))
            then Some (name (chains s ! nat (k - 1))) else None)
      else if k = 0 \<and> dev_accepts s 0 showChains_face then Some ''Show Chains''
      else None)"
  using assms
  by (simp add: showChains_def showChains_loop_texts createShowChainsButton_texts
      resetDeck_clears)

lemma showChains_panel:
  assumes "streamDeck s \<noteq> None"
  shows "panel_of (showChains s) k =
     (if 1 \<le> k \<and> k \<le> int (min (length (chains s)) 31)
      then (if dev_accepts s k (chain_face (chains s ! nat (k - 1)))
            then Some (chain_face (chains s ! nat (k - 1))) else None)
      else if k = 0 \<and> dev_accepts s 0 showChains_face then Some showChains_face
      else None)"
  using assms
  by (simp add: showChains_def showChains_loop_panel createShowChainsButton_panel
      resetDeck_clears)

lemma showChains_states:
  "streamDeck s \<noteq> None \<Longrightarrow> buttonStates (showChains s) = Map.empty"
  by (simp add: showChains_def resetDeck_clears)

lemma showChains_no_device: "streamDeck s = None \<Longrightarrow> showChains s = s"
proof -
  assume n: "streamDeck s = None"
  have "\<And>i. showChains_loop i s = s"
  proof -
    fix i show "showChains_loop i s = s"
      using n
    proof (induction i s rule: showChains_loop.induct)
      case (1 i s)
      have "\<And>k t o'. setButtonText k t o' s = s"
        using "1.prems" by (simp add: setButtonText_def)
      then show ?case
        using "1.IH" "1.prems"
        by (subst showChains_loop.simps) (simp add: Let_def)
    qed
  qed
  then show ?thesis
    using n by (simp add: showChains_def createShowChainsButton_def resetDeck_def setButtonText_def)
qed

lemma observers_updates [simp]:
  "dev_accepts (s\<lparr>currentChain := c\<rparr>) = dev_accepts s"
  "dev_accepts (s\<lparr>chains := cs\<rparr>) = dev_accepts s"
  "dev_accepts (s\<lparr>console_errors := es\<rparr>) = dev_accepts s"
  "dev_accepts (s\<lparr>fired := fs\<rparr>) = dev_accepts s"
  "panel_of (s\<lparr>currentChain := c\<rparr>) = panel_of s"
  "panel_of (s\<lparr>chains := cs\<rparr>) = panel_of s"
  "panel_of (s\<lparr>console_errors := es\<rparr>) = panel_of s"
  "panel_of (s\<lparr>fired := fs\<rparr>) = panel_of s"
  by (simp_all add: dev_accepts_def panel_of_def fun_eq_iff)

lemma createCustomLayout_loop_fields [simp]:
  "chains (createCustomLayout_loop i bs s) = chains s"
  "currentChain (createCustomLayout_loop i bs s) = currentChain s"
  "fired (createCustomLayout_loop i bs s) = fired s"
  "left (createCustomLayout_loop i bs s) = left s"
  "right (createCustomLayout_loop i bs s) = right s"
  "dev_accepts (createCustomLayout_loop i bs s) = dev_accepts s"
  by (induction i bs s rule: createCustomLayout_loop.induct; simp add: Let_def)+

lemma createCustomLayout_loop_texts:
  "buttonTexts (createCustomLayout_loop i bs s) k =
     (if int i + 2 \<le> k \<and> k < int (min (i + length bs) 30) + 2
         \<and> dev_accepts s k (button_face (bs ! nat (k - 2 - int i)))
      then Some (label (bs ! nat (k - 2 - int i)))
      else buttonTexts s k)"
proof (induction i bs s rule: createCustomLayout_loop.induct)
  case (1 index s)
  then show ?case by auto
next
  case (2 index button rest s)
  show ?case
  proof (cases "index \<ge> 30")
    case True
    then show ?thesis by auto
  next
    case False
    have step: "nat (k - 2 - int index) = Suc (nat (k - 2 - int (index + 1)))"
      if "int index + 2 < k" for k
      using that by simp
    show ?thesis
      using False "2.IH" [OF False refl]
      by (auto simp: Let_def setButtonText_texts button_face_def step)
  qed
qed

lemma createCustomLayout_loop_panel:
  "panel_of (createCustomLayout_loop i bs s) k =
     (if int i + 2 \<le> k \<and> k < int (min (i + length bs) 30) + 2
         \<and> dev_accepts s k (button_face (bs ! nat (k - 2 - int i)))
      then Some (button_face (bs ! nat (k - 2 - int i)))
      else panel_of s k)"
proof (induction i bs s rule: createCustomLayout_loop.induct)
  case (1 index s)
  then show ?case by auto
next
  case (2 index button rest s)
  show ?case
  proof (cases "index \<ge> 30")
    case True
    then show ?thesis by auto
  next
    case False
    have step: "nat (k - 2 - int index) = Suc (nat (k - 2 - int (index + 1)))"
      if "int index + 2 < k" for k
      using that by simp
    show ?thesis
      using False "2.IH" [OF False refl]
      by (auto simp: Let_def setButtonText_panel button_face_def step)
  qed
qed

lemma registerButtonAction_states:
  "buttonStates (registerButtonAction k p r i s) =
     (buttonStates s)(Number k \<mapsto> \<lparr>pressCallback = p, releaseCallback = r, info = i\<rparr>)"
  by (simp add: registerButtonAction_def)

lemma createCustomLayout_loop_states:
  "buttonStates (createCustomLayout_loop i bs s) (Finite k) =
     (if int i + 2 \<le> k \<and> k < int (min (i + length bs) 30) + 2
      then Some (module_state (bs ! nat (k - 2 - int i)))
      else buttonStates s (Finite k))"
proof (induction i bs s rule: createCustomLayout_loop.induct)
  case (1 index s)
  then show ?case by auto
next
  case (2 index button rest s)
  show ?case
  proof (cases "index \<ge> 30")
    case True
    then show ?thesis by auto
  next
    case False
    have step: "nat (k - 2 - int index) = Suc (nat (k - 2 - int (index + 1)))"
      if "int index + 2 < k" for k
      using that by simp
    show ?thesis
      using False "2.IH" [OF False refl]
      by (auto simp: Let_def registerButtonAction_states module_state_def step)
  qed
qed

lemma createCustomLayout_loop_states_NaN:
  "buttonStates (createCustomLayout_loop i bs s) NaN = buttonStates s NaN"
  by (induction i bs s rule: createCustomLayout_loop.induct)
     (auto simp: Let_def registerButtonAction_states)

lemma createCustomLayout_fields [simp]:
  "chains (createCustomLayout bs s) = chains s"
  "currentChain (createCustomLayout bs s) = currentChain s"
  "fired (createCustomLayout bs s) = fired s"
  "left (createCustomLayout bs s) = left s"
  "right (createCustomLayout bs s) = right s"
  "dev_accepts (createCustomLayout bs s) = dev_accepts s"
  by (simp_all add: createCustomLayout_def split: option.splits)

lemma showModules_fields [simp]:
  "chains (snd (showModules c s)) = chains s"
  "currentChain (snd (showModules c s)) = currentChain s"
  "fired (snd (showModules c s)) = fired s"
  "left (snd (showModules c s)) = left s"
  "right (snd (showModules c s)) = right s"
  "dev_accepts (snd (showModules c s)) = dev_accepts s"
  by (simp_all add: showModules_def split: sum.splits)

lemma loadChain_fields [simp]:
  "chains (snd (loadChain c s)) = chains s"
  "currentChain (snd (loadChain c s)) = Some c"
  "fired (snd (loadChain c s)) = fired s"
  "left (snd (loadChain c s)) = left s"
  "right (snd (loadChain c s)) = right s"
  "dev_accepts (snd (loadChain c s)) = dev_accepts s"
  by (simp_all add: loadChain_def createChainNameButton_def split: prod.splits option.splits)

lemma streamDeck_kept [simp]:
  "(streamDeck (registerButtonAction k p r i s) = None) = (streamDeck s = None)"
  "(streamDeck (createCustomLayout_loop n bs s) = None) = (streamDeck s = None)"
  "(streamDeck (createCustomLayout bs s) = None) = (streamDeck s = None)"
  "(streamDeck (snd (showModules c s)) = None) = (streamDeck s = None)"
  "(streamDeck (snd (loadChain c s)) = None) = (streamDeck s = None)"
proof -
  show "(streamDeck (registerButtonAction k p r i s) = None) = (streamDeck s = None)"
    by simp
  show loop: "(streamDeck (createCustomLayout_loop n bs s) = None) = (streamDeck s = None)"
    for n bs s
    by (induction n bs s rule: createCustomLayout_loop.induct) (simp_all add: Let_def)
  show cl: "(streamDeck (createCustomLayout bs s) = None) = (streamDeck s = None)" for bs s
    by (simp add: createCustomLayout_def loop split: option.splits)
  show sm: "(streamDeck (snd (showModules c s)) = None) = (streamDeck s = None)" for c s
    by (simp add: showModules_def cl split: sum.splits)
  show "(streamDeck (snd (loadChain c s)) = None) = (streamDeck s = None)"
    by (simp add: loadChain_def createChainNameButton_def sm split: prod.splits option.splits)
qed

lemma layout_of_length: "layout_of ms = Inr bs \<Longrightarrow> length bs = length ms"
  by (induction ms arbitrary: bs) (auto split: sum.splits)

lemma layout_of_nth:
  "layout_of ms = Inr bs \<Longrightarrow> i < length ms \<Longrightarrow>
     label (bs ! i) = or_default (deviceName (ms ! i)) ''Unknown Device''
     \<and> getColorForRole (role (ms ! i)) = Inr (backgroundColor (bs ! i))
     \<and> textColor (bs ! i) = ''#ffffff'' \<and> fontSize (bs ! i) = 12 \<and> lmodule (bs ! i) = ms ! i"
proof (induction ms arbitrary: bs i)
  case Nil
  then show ?case by simp
next
  case (Cons m ms)
  then show ?case
    by (cases i) (auto split: sum.splits)
qed

lemma layout_of_total:
  "(\<forall>m \<in> set ms. role m \<noteq> None) \<Longrightarrow> \<exists>bs. layout_of ms = Inr bs"
  by (induction ms) (auto simp: getColorForRole_def Let_def split: sum.splits if_splits)

text \<open>The chain view, key by key, when no colour lookup throws.\<close>

lemma loadChain_ok:
  "layout_of (modules c) = Inr bs \<Longrightarrow> fst (loadChain c s) = None"
  by (simp add: loadChain_def createChainNameButton_def showModules_def split: prod.splits)

lemma loadChain_texts:
  assumes "streamDeck s \<noteq> None" and "layout_of (modules c) = Inr bs"
  shows "buttonTexts (snd (loadChain c s)) k =
     (if 2 \<le> k \<and> k < int (min (length bs) 30) + 2
      then (if dev_accepts s k (button_face (bs ! nat (k - 2)))
            then Some (label (bs ! nat (k - 2))) else None)
      else if k = 1 \<and> dev_accepts s 1 (chain_face c) then Some (name c)
      else if k = 0 \<and> dev_accepts s 0 showChains_face then Some ''Show Chains''
      else None)"
  using assms
  by (auto simp: loadChain_def createChainNameButton_def showModules_def createCustomLayout_def
      createCustomLayout_loop_texts setButtonText_texts createShowChainsButton_texts
      resetDeck_clears chain_face_def split: option.splits)

lemma loadChain_states:
  assumes "streamDeck s \<noteq> None" and "layout_of (modules c) = Inr bs"
  shows "buttonStates (snd (loadChain c s)) (Finite k) =
     (if 2 \<le> k \<and> k < int (min (length bs) 30) + 2 then Some (module_state (bs ! nat (k - 2)))
      else if k = 1
      then Some \<lparr>pressCallback = Some (CurrentChainPressed (name c)), releaseCallback = None,
                 info = CurrentChainInfo (name c)\<rparr>
      else None)"
  using assms
  by (auto simp: loadChain_def createChainNameButton_def showModules_def createCustomLayout_def
      createCustomLayout_loop_states registerButtonAction_states resetDeck_clears
      split: option.splits)

lemma getButtonText_Bare:
  "getButtonText (Bare k) s = or_default (buttonTexts s k) (''Unknown Button '' @ string_of_int k)"
  by (simp add: getButtonText_def)

lemma find_first_named:
  "distinct (map name cs) \<Longrightarrow> i < length cs \<Longrightarrow>
     find (\<lambda>c. name c = name (cs ! i)) cs = Some (cs ! i)"
proof (induction cs arbitrary: i)
  case Nil
  then show ?case by simp
next
  case (Cons c cs)
  then show ?case
    by (cases i) (auto simp: image_iff)
qed

lemma find_named_Some:
  "i < length cs \<Longrightarrow> \<exists>c. find (\<lambda>c. name c = name (cs ! i)) cs = Some c \<and> name c = name (cs ! i)"
proof -
  assume "i < length cs"
  then have "\<exists>c \<in> set cs. name c = name (cs ! i)" by auto
  then obtain c where "find (\<lambda>c. name c = name (cs ! i)) cs = Some c"
    by (cases "find (\<lambda>c. name c = name (cs ! i)) cs") (auto simp: find_None_iff)
  then show ?thesis
    by (auto dest: find_Some_iff [THEN iffD1])
qed

lemma started_device [simp]:
  "streamDeck started \<noteq> None" "dev_accepts started k f" "chains started = []"
  "panel_of started = Map.empty" "buttonTexts started = Map.empty"
  "buttonStates started = Map.empty" "fired started = []" "currentChain started = None"
  by (simp_all add: started_def resetDeck_def initial_def blank_device_def dev_accepts_def
      panel_of_def)

lemma map_throwing_map:
  "(\<And>x. x \<in> set xs \<Longrightarrow> f (g x) = Inr (h x)) \<Longrightarrow> map_throwing f (map g xs) = Inr (map h xs)"
  by (induction xs) auto

lemma chain_of_numbered: "chain_of (numbered_raw i) = Inr (numbered_chain i)"
  by (simp add: chain_of_def chain_modules_def numbered_raw_def numbered_chain_def or_default_def)

lemma normalize_numbered: "normalize_doc (numbered_doc n) = Inr (map numbered_chain [0..<n])"
  by (simp add: normalize_doc_def numbered_doc_def comp_def map_throwing_map chain_of_numbered)

lemma loadChainLayout_nonempty:
  "normalize_doc data = Inr cs \<Longrightarrow> cs \<noteq> [] \<Longrightarrow>
     loadChainLayout (Inr data) s = showChains (s\<lparr>chains := cs\<rparr>)"
  by (simp add: loadChainLayout_def)

lemma streamDeck_chains_update [simp]:
  "streamDeck (s\<lparr>chains := cs\<rparr>) = streamDeck s"
  by simp

lemma toLowerCase_simps:
  "toLowerCase [] = []" "toLowerCase (c # cs) = lower_char c # toLowerCase cs"
  by (simp_all add: toLowerCase_def)

lemma chains_loaded: "chains loaded = [drums, bass]"
  by (simp add: loaded_def loadChainLayout_def normalize_two_chains)

lemma normalize_empty: "normalize_doc empty_doc = Inr []"
  by (simp add: normalize_doc_def empty_doc_def)

lemma normalize_no_lane:
  "normalize_doc no_lane_doc = Inl (TypeError ''Cannot read properties of undefined (reading 'cells')'')"
  by (simp add: normalize_doc_def no_lane_doc_def chain_of_def chain_modules_def)

lemma normalize_bare:
  "normalize_doc bare_doc =
     Inr [\<lparr>name = ''Unnamed Chain'', chain_id = None, midiChannel = None, active = False,
           modules = [bare_module]\<rparr>]"
  by (simp add: normalize_doc_def bare_doc_def chain_of_def chain_modules_def cell_modules_def
      item_modules_def side_of_def module_of_def bare_cell_def bare_side_def bare_module_def
      or_default_def)

lemma handleKeyPress_0: "handleKeyPress (Bare 0) s = (None, showChains s)"
  by (simp add: handleKeyPress_def)

lemma handleKeyPress_fired: "fired (snd (handleKeyPress k s)) = fired s"
  by (simp add: handleKeyPress_def Let_def split: option.splits)

lemma handleKeyPress_chains: "chains (snd (handleKeyPress k s)) = chains s"
  by (simp add: handleKeyPress_def Let_def split: option.splits)

lemma chain_names [simp]: "name drums = ''Drums''" "name bass = ''Bass''"
  by (simp_all add: drums_def bass_def)

lemma loaded_eq: "loaded = showChains (started\<lparr>chains := [drums, bass]\<rparr>)"
  unfolding loaded_def by (rule loadChainLayout_nonempty [OF normalize_two_chains]) simp

lemma loaded_fields [simp]:
  "streamDeck loaded \<noteq> None" "dev_accepts loaded k f" "fired loaded = []"
  by (simp_all add: loaded_eq)

lemma loaded_texts:
  "buttonTexts loaded 0 = Some ''Show Chains''" "buttonTexts loaded 1 = Some ''Drums''"
  "buttonTexts loaded 2 = Some ''Bass''"
  by (simp_all add: loaded_eq showChains_texts)

lemma layout_drums:
  "layout_of (modules drums) =
     Inr [\<lparr>label = ''Synth A'', backgroundColor = ''#00008B'', textColor = ''#ffffff'',
           fontSize = 12, lmodule = synth_a\<rparr>,
          \<lparr>label = ''Comp 1'', backgroundColor = ''#FF8C00'', textColor = ''#ffffff'',
           fontSize = 12, lmodule = comp_1\<rparr>]"
  by (simp add: drums_def synth_a_def comp_1_def getColorForRole_def toLowerCase_simps
      lower_char_def or_default_def)

lemma drums_view_eq: "drums_view = snd (loadChain drums loaded)"
  by (simp add: drums_view_def handleKeyPress_def getButtonText_Bare loaded_texts or_default_def
      chains_loaded)

lemma drums_view_fields [simp]:
  "streamDeck drums_view \<noteq> None" "dev_accepts drums_view k f" "fired drums_view = []"
  "chains drums_view = [drums, bass]" "currentChain drums_view = Some drums"
  by (simp_all add: drums_view_eq chains_loaded)

lemma drums_view_texts:
  "buttonTexts drums_view 1 = Some ''Drums''" "buttonTexts drums_view 2 = Some ''Synth A''"
  "buttonTexts drums_view 3 = Some ''Comp 1''"
  by (simp_all add: drums_view_eq loadChain_texts [OF _ layout_drums])

lemma press_chain_slot:
  assumes "streamDeck s0 \<noteq> None" and "i < length (chains s0)" and "i < 31"
    and "dev_accepts s0 (int i + 1) (chain_face (chains s0 ! i))"
    and "name (chains s0 ! i) \<noteq> []"
  shows "\<exists>c. find (\<lambda>c. name c = name (chains s0 ! i)) (chains s0) = Some c
           \<and> name c = name (chains s0 ! i)
           \<and> handleKeyPress (Bare (int i + 1)) (showChains s0) = loadChain c (showChains s0)"
proof -
  have "buttonTexts (showChains s0) (int i + 1) = Some (name (chains s0 ! i))"
    using assms by (auto simp: showChains_texts)
  then have shown: "getButtonText (Bare (int i + 1)) (showChains s0) = name (chains s0 ! i)"
    using assms(5) by (simp add: getButtonText_Bare or_default_def)
  obtain c where c: "find (\<lambda>c. name c = name (chains s0 ! i)) (chains s0) = Some c"
    "name c = name (chains s0 ! i)"
    using find_named_Some [OF assms(2)] by blast
  have "int i + 1 \<noteq> 0" by simp
  then have "handleKeyPress (Bare (int i + 1)) (showChains s0) = loadChain c (showChains s0)"
    using c(1) shown by (simp add: handleKeyPress_def Let_def)
  with c show ?thesis by blast
qed

lemma showChains_again:
  assumes "streamDeck s \<noteq> None" and "streamDeck s' \<noteq> None" and "chains s' = chains s"
    and "dev_accepts s' = dev_accepts s"
  shows "buttonTexts (showChains s') = buttonTexts (showChains s)"
    and "panel_of (showChains s') = panel_of (showChains s)"
    and "buttonStates (showChains s') = buttonStates (showChains s)"
  using assms by (auto simp: fun_eq_iff showChains_texts showChains_panel showChains_states)

lemma normalize_twins: "normalize_doc twins_doc = Inr [drums, drums_twin]"
  by (simp add: normalize_doc_def twins_doc_def drums_raw_def bass_raw_def chain_of_def
      chain_modules_def cell_modules_def item_modules_def side_of_def module_of_def
      side_named_def or_default_def drums_def bass_def drums_twin_def synth_a_def comp_1_def)

lemma twins_eq: "twins = showChains (started\<lparr>chains := [drums, drums_twin]\<rparr>)"
  unfolding twins_def by (rule loadChainLayout_nonempty [OF normalize_twins]) simp

lemma twin_name [simp]: "name drums_twin = ''Drums''"
  by (simp add: drums_twin_def)

lemma normalize_alias: "normalize_doc alias_doc = Inr [alias_drums, bass]"
  by (simp add: normalize_doc_def alias_doc_def alias_raw_def bass_raw_def chain_of_def
      chain_modules_def cell_modules_def item_modules_def side_of_def module_of_def
      side_named_def or_default_def alias_drums_def bass_def synth_a_def)

lemma layout_alias:
  "layout_of (modules alias_drums) =
     Inr [\<lparr>label = ''Bass'', backgroundColor = ''#00008B'', textColor = ''#ffffff'',
           fontSize = 12, lmodule = synth_a\<lparr>deviceName := Some ''Bass''\<rparr>\<rparr>]"
  by (simp add: alias_drums_def synth_a_def getColorForRole_def toLowerCase_simps
      lower_char_def or_default_def)

lemma module_press_may_leave_chain:
  "currentChain alias_view = Some alias_drums
   \<and> buttonTexts alias_view 2 = Some ''Bass''
   \<and> pressCallback (the (buttonStates alias_view (Finite 2))) =
       Some (ModulePressed ''Bass'' (synth_a\<lparr>deviceName := Some ''Bass''\<rparr>))
   \<and> currentChain (snd (handleKeyPress (Bare 2) alias_view)) = Some bass
   \<and> fired (snd (handleKeyPress (Bare 2) alias_view)) = []"
proof -
  define a where "a = loadChainLayout (Inr alias_doc) started"
  have a: "a = showChains (started\<lparr>chains := [alias_drums, bass]\<rparr>)"
    unfolding a_def by (rule loadChainLayout_nonempty [OF normalize_alias]) simp
  have n: "name alias_drums = ''Drums''" by (simp add: alias_drums_def)
  have at: "buttonTexts a 1 = Some ''Drums''" "chains a = [alias_drums, bass]"
    "streamDeck a \<noteq> None" "dev_accepts a = (\<lambda>k f. True)" "fired a = []"
    by (simp_all add: a showChains_texts n fun_eq_iff)
  have "handleKeyPress (Bare 1) a = loadChain alias_drums a"
    by (simp add: handleKeyPress_def getButtonText_Bare at or_default_def n)
  then have v: "alias_view = snd (loadChain alias_drums a)"
    by (simp add: alias_view_def a_def)
  have vt: "buttonTexts alias_view 2 = Some ''Bass''"
    by (simp add: v loadChain_texts [OF at(3) layout_alias] at)
  have vs: "buttonStates alias_view (Finite 2) =
      Some (module_state \<lparr>label = ''Bass'', backgroundColor = ''#00008B'', textColor = ''#ffffff'',
           fontSize = 12, lmodule = synth_a\<lparr>deviceName := Some ''Bass''\<rparr>\<rparr>)"
    by (simp add: v loadChain_states [OF at(3) layout_alias])
  have vc: "chains alias_view = [alias_drums, bass]" "currentChain alias_view = Some alias_drums"
    "fired alias_view = []"
    by (simp_all add: v at)
  have "handleKeyPress (Bare 2) alias_view = loadChain bass alias_view"
    by (simp add: handleKeyPress_def getButtonText_Bare vt or_default_def vc n)
  then show ?thesis
    using vt vs vc by (simp add: module_state_def)
qed

text \<open>The press of the slot of a chain that has a module without a role throws.\<close>

lemma press_chain_without_role_throws:
  "fst (handleKeyPress (Bare 1) (loadChainLayout (Inr bare_doc) started)) =
     Some (TypeError ''Cannot read properties of undefined (reading 'toLowerCase')'')"
proof -
  define c where "c = \<lparr>name = ''Unnamed Chain'', chain_id = None, midiChannel = None,
    active = False, modules = [bare_module]\<rparr>"
  define b where "b = loadChainLayout (Inr bare_doc) started"
  have b: "b = showChains (started\<lparr>chains := [c]\<rparr>)"
    unfolding b_def c_def by (rule loadChainLayout_nonempty [OF normalize_bare]) simp
  have n: "name c = ''Unnamed Chain''" "modules c = [bare_module]"
    by (simp_all add: c_def)
  have "buttonTexts b 1 = Some ''Unnamed Chain''" "chains b = [c]"
    by (simp_all add: b showChains_texts n)
  then have "handleKeyPress (Bare 1) b = loadChain c b"
    by (simp add: handleKeyPress_def getButtonText_Bare or_default_def n)
  moreover have "fst (loadChain c b) =
      Some (TypeError ''Cannot read properties of undefined (reading 'toLowerCase')'')"
    by (simp add: loadChain_def createChainNameButton_def showModules_def n bare_module_def
        getColorForRole_def)
  ultimately show ?thesis
    by (simp add: b_def)
qed

subsection \<open>Any decoded document\<close>

lemma prop_of_obj_of [simp]:
  "prop_of (obj_of []) p = JUndefined"
  "prop_of (obj_of ((k, v) # xs)) p =
     (if p = k then (case v of Some x \<Rightarrow> x | None \<Rightarrow> prop_of (obj_of xs) p)
      else prop_of (obj_of xs) p)"
  by (auto simp: prop_of_def obj_of_def List.map_filter_simps split: option.splits)

lemma obj_of_not_nullish [simp]: "\<not> nullish (obj_of xs)" "truthy (obj_of xs)"
  by (simp_all add: obj_of_def nullish_def)

lemma nullish_simps [simp]:
  "nullish JUndefined" "nullish JNull" "\<not> nullish (JBool b)" "\<not> nullish (JNumber n)"
  "\<not> nullish (JString str)" "\<not> nullish (JArray xs)" "\<not> nullish (JObject kvs)"
  by (simp_all add: nullish_def)

lemma jmodule_of_refines:
  "jmodule_of (js_of_cell cell) ch (js_of_side side) = js_of_module (module_of cell ch side)"
  by (auto simp: jmodule_of_def js_of_module_def module_of_def js_of_cell_def js_of_side_def
      opt_prop_def js_opt_def js_or_def own_keys_def comp_def
      split: option.splits list.splits)

lemma js_of_not_nullish [simp]:
  "\<not> nullish (js_of_side side)" "truthy (js_of_side side)"
  "\<not> nullish (js_of_item item)" "\<not> nullish (js_of_cell cell)"
  "\<not> nullish (js_of_lane lane)" "\<not> nullish (js_of_state st)"
  "\<not> nullish (js_of_raw_chain rc)" "\<not> nullish (js_of_doc d)"
  by (simp_all add: js_of_side_def js_of_item_def js_of_cell_def js_of_lane_def js_of_state_def
      js_of_raw_chain_def js_of_doc_def)

lemma jitem_modules_refines:
  "jitem_modules (js_of_cell cell) (js_of_item item) =
     Inr (map js_of_module (item_modules cell item))"
  by (auto simp: jitem_modules_def item_modules_def js_of_item_def side_of_def channel_key_def
      jmodule_of_refines split: option.splits)

lemma map_throwing_refines:
  "(\<And>x. x \<in> set xs \<Longrightarrow> f' (g x) = (case f x of Inl e \<Rightarrow> Inl e | Inr y \<Rightarrow> Inr (h y))) \<Longrightarrow>
     map_throwing f' (map g xs) =
       (case map_throwing f xs of Inl e \<Rightarrow> Inl e | Inr ys \<Rightarrow> Inr (map h ys))"
  by (induction xs) (auto split: sum.splits)

lemma jcell_modules_refines:
  "jcell_modules (js_of_cell cell) = Inr (map js_of_module (cell_modules cell))"
proof (cases "cell_items cell")
  case None
  then show ?thesis
    by (simp add: jcell_modules_def cell_modules_def js_of_cell_def flatMap_or_empty_def)
next
  case (Some its)
  have "map_throwing (jitem_modules (js_of_cell cell)) (map js_of_item its) =
      Inr (map (\<lambda>item. map js_of_module (item_modules cell item)) its)"
    by (rule map_throwing_map) (simp add: jitem_modules_refines)
  then show ?thesis
    using Some
    by (simp add: jcell_modules_def cell_modules_def flatMap_or_empty_def map_concat comp_def
        js_of_cell_def [of cell])
qed

lemma jchain_modules_refines:
  "jchain_modules (js_of_raw_chain rc) =
     (case chain_modules rc of Inl e \<Rightarrow> Inl e | Inr ms \<Rightarrow> Inr (map js_of_module ms))"
proof (cases "rc_lanes rc")
  case None
  then show ?thesis
    by (simp add: jchain_modules_def chain_modules_def js_of_raw_chain_def)
next
  case (Some ls)
  show ?thesis
  proof (cases ls)
    case Nil
    then show ?thesis
      using Some
      by (simp add: jchain_modules_def chain_modules_def js_of_raw_chain_def first_element_def
          get_prop_def cannot_read_def)
  next
    case (Cons lane rest)
    show ?thesis
    proof (cases "lane_cells lane")
      case None
      then show ?thesis
        using Some Cons
        by (simp add: jchain_modules_def chain_modules_def js_of_raw_chain_def first_element_def
            get_prop_def js_of_lane_def flatMap_or_empty_def)
    next
      case (Some cs)
      have "map_throwing jcell_modules (map js_of_cell cs) =
          Inr (map (\<lambda>cell. map js_of_module (cell_modules cell)) cs)"
        by (rule map_throwing_map) (simp add: jcell_modules_refines)
      then show ?thesis
        using Some Cons \<open>rc_lanes rc = Some ls\<close>
        by (simp add: jchain_modules_def chain_modules_def js_of_raw_chain_def first_element_def
            get_prop_def js_of_lane_def flatMap_or_empty_def map_concat comp_def)
    qed
  qed
qed

lemma jchain_of_refines:
  "jchain_of (js_of_raw_chain rc) =
     (case chain_of rc of Inl e \<Rightarrow> Inl e | Inr c \<Rightarrow> Inr (js_of_chain c))"
proof -
  have st: "get_prop (js_of_raw_chain rc) ''state'' =
      Inr (prop_of (js_of_raw_chain rc) ''state'')"
    by (simp add: get_prop_def js_of_raw_chain_def)
  show ?thesis
    unfolding jchain_of_def st chain_of_def jchain_modules_refines
    by (auto simp: js_of_chain_def js_of_raw_chain_def js_of_state_def opt_prop_def js_or_def
        js_opt_def or_default_def split: sum.splits option.splits)
qed

text \<open>On the documents of the records, \<open>normalize_doc\<close> is \<open>normalize_js\<close>.\<close>

lemma normalize_doc_refines:
  "normalize_js (js_of_doc d) =
     (case normalize_doc d of Inl e \<Rightarrow> Inl e | Inr cs \<Rightarrow> Inr (map js_of_chain cs))"
proof (cases "doc_chains d")
  case None
  then show ?thesis
    by (simp add: normalize_js_def normalize_doc_def js_of_doc_def get_prop_def object_values_def)
next
  case (Some entries)
  have "map_throwing jchain_of (map js_of_raw_chain (map snd entries)) =
      (case map_throwing chain_of (map snd entries) of
         Inl e \<Rightarrow> Inl e
       | Inr cs \<Rightarrow> Inr (map js_of_chain cs))"
    by (rule map_throwing_refines) (simp add: jchain_of_refines)
  then have main: "map_throwing jchain_of (map (js_of_raw_chain \<circ> snd) entries) =
      (case map_throwing chain_of (map snd entries) of
         Inl e \<Rightarrow> Inl e
       | Inr cs \<Rightarrow> Inr (map js_of_chain cs))"
    by simp
  have m: "snd \<circ> (\<lambda>(k, rc). (k, js_of_raw_chain rc)) = js_of_raw_chain \<circ> snd"
    by (auto simp: fun_eq_iff)
  show ?thesis
    using Some main
    by (simp add: normalize_js_def normalize_doc_def js_of_doc_def get_prop_def object_values_def
        own_values_def m)
qed

lemma map_throwing_Inr:
  "(\<And>x. x \<in> set xs \<Longrightarrow> f x = Inr (h x)) \<Longrightarrow> map_throwing f xs = Inr (map h xs)"
  using map_throwing_map [of xs f "\<lambda>x. x" h] by simp

lemma jitem_modules_shaped:
  "\<not> nullish item \<Longrightarrow>
     jitem_modules cell item =
       Inr (map (\<lambda>(c, ch, side). jmodule_of c ch side) (sides_of_item cell item))"
  by (simp add: jitem_modules_def sides_of_item_def)

lemma jcell_modules_shaped:
  assumes "shaped_cell cell"
  shows "jcell_modules cell =
     Inr (map (\<lambda>(c, ch, side). jmodule_of c ch side)
            (concat (map (sides_of_item cell) (items_of_cell cell))))"
proof (cases "prop_of cell ''items''")
  case (JArray its)
  then have "\<forall>item \<in> set its. \<not> nullish item"
    using assms by (simp add: shaped_cell_def list_all_iff)
  then have "map_throwing (jitem_modules cell) its =
      Inr (map (\<lambda>item. map (\<lambda>(c, ch, side). jmodule_of c ch side) (sides_of_item cell item)) its)"
    by (intro map_throwing_Inr) (simp add: jitem_modules_shaped)
  then show ?thesis
    using assms JArray
    by (simp add: jcell_modules_def shaped_cell_def flatMap_or_empty_def items_of_cell_def
        map_concat comp_def)
qed (use assms in \<open>simp_all add: jcell_modules_def shaped_cell_def flatMap_or_empty_def
      items_of_cell_def\<close>)

lemma jchain_modules_shaped:
  assumes "shaped_chain chain"
  shows "jchain_modules chain =
     Inr (map (\<lambda>(c, ch, side). jmodule_of c ch side) (expected_sides chain))"
proof (cases "nullish (prop_of chain ''lanes'')")
  case True
  then show ?thesis
    by (simp add: jchain_modules_def expected_sides_def first_lane_cells_def)
next
  case False
  define lane where "lane = first_element (prop_of chain ''lanes'')"
  have lane: "\<not> nullish lane"
    using assms False by (simp add: shaped_chain_def lane_def)
  show ?thesis
  proof (cases "prop_of lane ''cells''")
    case (JArray cs)
    then have "\<forall>cell \<in> set cs. shaped_cell cell"
      using assms False by (simp add: shaped_chain_def lane_def list_all_iff)
    then have "map_throwing jcell_modules cs =
        Inr (map (\<lambda>cell. map (\<lambda>(c, ch, side). jmodule_of c ch side)
                   (concat (map (sides_of_item cell) (items_of_cell cell)))) cs)"
      by (intro map_throwing_Inr) (simp add: jcell_modules_shaped)
    then show ?thesis
      using False lane JArray
      by (simp add: jchain_modules_def Let_def get_prop_def flatMap_or_empty_def
          expected_sides_def first_lane_cells_def lane_def [symmetric] map_concat comp_def)
  qed (use assms False lane in \<open>simp_all add: jchain_modules_def Let_def get_prop_def
        flatMap_or_empty_def expected_sides_def first_lane_cells_def shaped_chain_def
        lane_def [symmetric]\<close>)
qed

lemma jchain_of_shaped:
  assumes "shaped_chain chain"
  shows "jchain_of chain =
     Inr \<lparr>j_name = js_or (opt_prop (prop_of chain ''state'') ''name'') (JString ''Unnamed Chain''),
          j_id = prop_of chain ''id'',
          j_midiChannel = opt_prop (prop_of chain ''state'') ''midiChannel'',
          j_active = js_or (opt_prop (prop_of chain ''cond'') ''active'') (JBool False),
          j_modules = map (\<lambda>(c, ch, side). jmodule_of c ch side) (expected_sides chain)\<rparr>"
  using assms jchain_modules_shaped [OF assms]
  by (simp add: jchain_of_def get_prop_def shaped_chain_def)

lemma normalize_js_shaped:
  assumes "shaped data"
  shows "normalize_js data =
     Inr (map (\<lambda>chain.
            \<lparr>j_name = js_or (opt_prop (prop_of chain ''state'') ''name'') (JString ''Unnamed Chain''),
             j_id = prop_of chain ''id'',
             j_midiChannel = opt_prop (prop_of chain ''state'') ''midiChannel'',
             j_active = js_or (opt_prop (prop_of chain ''cond'') ''active'') (JBool False),
             j_modules = map (\<lambda>(c, ch, side). jmodule_of c ch side) (expected_sides chain)\<rparr>)
          (own_values (prop_of data ''chains'')))"
proof -
  have "\<forall>chain \<in> set (own_values (prop_of data ''chains'')). shaped_chain chain"
    using assms by (simp add: shaped_def list_all_iff)
  then have "map_throwing jchain_of (own_values (prop_of data ''chains'')) = Inr (map (\<lambda>chain.
            \<lparr>j_name = js_or (opt_prop (prop_of chain ''state'') ''name'') (JString ''Unnamed Chain''),
             j_id = prop_of chain ''id'',
             j_midiChannel = opt_prop (prop_of chain ''state'') ''midiChannel'',
             j_active = js_or (opt_prop (prop_of chain ''cond'') ''active'') (JBool False),
             j_modules = map (\<lambda>(c, ch, side). jmodule_of c ch side) (expected_sides chain)\<rparr>)
          (own_values (prop_of data ''chains'')))"
    by (intro map_throwing_Inr) (simp add: jchain_of_shaped)
  then show ?thesis
    using assms by (simp add: normalize_js_def get_prop_def object_values_def shaped_def)
qed

lemma js_examples:
  "js_of_doc no_lane_doc = no_lane_js" "js_of_doc bare_doc = bare_js"
  by (simp_all add: js_of_doc_def no_lane_doc_def no_lane_js_def js_of_raw_chain_def obj_of_def
      List.map_filter_simps bare_doc_def bare_js_def bare_chain_js_def bare_cell_js_def
      bare_side_js_def js_of_lane_def js_of_cell_def bare_cell_def js_of_item_def js_of_side_def
      bare_side_def)

lemma normalize_js_no_lane:
  "normalize_js no_lane_js =
     Inl (TypeError ''Cannot read properties of undefined (reading 'cells')'')"
  by (simp add: normalize_js_def no_lane_js_def get_prop_def prop_of_def object_values_def
      own_values_def jchain_of_def jchain_modules_def first_element_def cannot_read_def)

text \<open>A chain that is \<^verbatim>\<open>null\<close> and a first lane that is \<^verbatim>\<open>null\<close> make the load throw as well.\<close>

lemma normalize_js_null:
  "normalize_js null_chain_js =
     Inl (TypeError ''Cannot read properties of null (reading 'state')'')"
  "normalize_js null_lane_js =
     Inl (TypeError ''Cannot read properties of null (reading 'cells')'')"
  by (simp_all add: normalize_js_def null_chain_js_def null_lane_js_def get_prop_def prop_of_def
      object_values_def own_values_def jchain_of_def jchain_modules_def first_element_def
      cannot_read_def)

lemma shaped_bare: "shaped bare_js"
  by (simp add: shaped_def shaped_chain_def shaped_cell_def bare_js_def bare_chain_js_def
      bare_cell_js_def bare_side_js_def prop_of_def own_values_def first_element_def)

lemma expected_sides_bare:
  "expected_sides bare_chain_js = [(bare_cell_js, L, bare_side_js)]"
  by (simp add: expected_sides_def first_lane_cells_def items_of_cell_def sides_of_item_def
      bare_chain_js_def bare_cell_js_def bare_side_js_def prop_of_def first_element_def
      channel_key_def)

lemma normalize_js_bare:
  "normalize_js bare_js =
     Inr [\<lparr>j_name = JString ''Unnamed Chain'', j_id = JUndefined, j_midiChannel = JUndefined,
           j_active = JBool False,
           j_modules = [\<lparr>jm_name = JString ''m'', jm_deviceName = JUndefined, jm_role = None,
                         jm_midiNote = JUndefined, jm_channel = L, jm_phonia = JUndefined,
                         jm_tags = JUndefined, jm_ab = JUndefined\<rparr>]\<rparr>]"
proof -
  have v: "own_values (prop_of bare_js ''chains'') = [bare_chain_js]"
    by (simp add: bare_js_def prop_of_def own_values_def)
  have p: "prop_of bare_chain_js ''state'' = JUndefined" "prop_of bare_chain_js ''id'' = JUndefined"
    "prop_of bare_chain_js ''cond'' = JUndefined"
    by (simp_all add: bare_chain_js_def prop_of_def)
  have m: "jmodule_of bare_cell_js L bare_side_js =
      \<lparr>jm_name = JString ''m'', jm_deviceName = JUndefined, jm_role = None,
       jm_midiNote = JUndefined, jm_channel = L, jm_phonia = JUndefined,
       jm_tags = JUndefined, jm_ab = JUndefined\<rparr>"
    by (simp add: jmodule_of_def bare_cell_js_def bare_side_js_def prop_of_def opt_prop_def
        js_or_def own_keys_def)
  show ?thesis
    by (simp add: normalize_js_shaped [OF shaped_bare] v p m expected_sides_bare opt_prop_def
        js_or_def)
qed

text \<open>Among the documents of the records, the shaped ones are those with \<^verbatim>\<open>chains\<close> and
  without an empty list of lanes.\<close>

lemma shaped_cell_js_of_cell: "shaped_cell (js_of_cell cell)"
  by (cases "cell_items cell") (simp_all add: shaped_cell_def js_of_cell_def list_all_iff)

lemma shaped_chain_js_of_raw_chain:
  "shaped_chain (js_of_raw_chain rc) = (rc_lanes rc \<noteq> Some [])"
proof (cases "rc_lanes rc")
  case None
  then show ?thesis
    by (simp add: shaped_chain_def js_of_raw_chain_def)
next
  case (Some ls)
  show ?thesis
  proof (cases ls)
    case Nil
    then show ?thesis
      using Some by (simp add: shaped_chain_def js_of_raw_chain_def first_element_def)
  next
    case (Cons lane rest)
    then show ?thesis
      using Some
      by (cases "lane_cells lane")
         (simp_all add: shaped_chain_def js_of_raw_chain_def first_element_def js_of_lane_def
            list_all_iff shaped_cell_js_of_cell)
  qed
qed

lemma shaped_js_of_doc:
  "shaped (js_of_doc d) =
     (\<exists>entries. doc_chains d = Some entries \<and> (\<forall>rc \<in> snd ` set entries. rc_lanes rc \<noteq> Some []))"
  by (cases "doc_chains d")
     (auto simp: shaped_def js_of_doc_def own_values_def list_all_iff
        shaped_chain_js_of_raw_chain)

subsection \<open>The chain view by its modules, and runs of key presses\<close>

lemma loadChain_panel:
  assumes "streamDeck s \<noteq> None" and "layout_of (modules c) = Inr bs"
  shows "panel_of (snd (loadChain c s)) k =
     (if 2 \<le> k \<and> k < int (min (length bs) 30) + 2
      then (if dev_accepts s k (button_face (bs ! nat (k - 2)))
            then Some (button_face (bs ! nat (k - 2))) else None)
      else if k = 1 \<and> dev_accepts s 1 (chain_face c) then Some (chain_face c)
      else if k = 0 \<and> dev_accepts s 0 showChains_face then Some showChains_face
      else None)"
  using assms
  by (auto simp: loadChain_def createChainNameButton_def showModules_def createCustomLayout_def
      createCustomLayout_loop_panel setButtonText_panel createShowChainsButton_panel
      resetDeck_clears chain_face_def split: option.splits)

text \<open>The chain header is set up before the modules are looked at.\<close>

lemma loadChain_header:
  "buttonStates (snd (loadChain c s)) (Finite 1) = Some (header_state c)"
  "streamDeck s \<noteq> None \<Longrightarrow>
     buttonTexts (snd (loadChain c s)) 1 =
       (if dev_accepts s 1 (chain_face c) then Some (name c) else None)"
  by (auto simp: loadChain_def createChainNameButton_def showModules_def createCustomLayout_def
      createCustomLayout_loop_states createCustomLayout_loop_texts registerButtonAction_states
      setButtonText_texts createShowChainsButton_texts resetDeck_clears chain_face_def
      header_state_def split: option.splits sum.splits)

lemma map_throwing_results:
  "map_throwing f xs = Inr ys \<Longrightarrow> y \<in> set ys \<Longrightarrow> \<exists>x \<in> set xs. f x = Inr y"
  by (induction xs arbitrary: ys) (auto split: sum.splits)

lemma chain_of_name: "chain_of rc = Inr c \<Longrightarrow> name c \<noteq> []"
  by (auto simp: chain_of_def or_default_def split: sum.splits option.splits if_splits)

lemma normalize_doc_names: "normalize_doc data = Inr cs \<Longrightarrow> c \<in> set cs \<Longrightarrow> name c \<noteq> []"
  by (auto simp: normalize_doc_def split: option.splits
      dest!: map_throwing_results dest: chain_of_name)

lemma chain_view:
  assumes "streamDeck s \<noteq> None" and "\<forall>m \<in> set (modules c). role m \<noteq> None"
    and "s1 = snd (loadChain c s)"
  shows "fst (loadChain c s) = None"
    and "\<forall>n < min (length (modules c)) 30.
          buttonStates s1 (Finite (int n + 2)) = Some (module_button_state (modules c ! n))
          \<and> (\<exists>col. getColorForRole (role (modules c ! n)) = Inr col
                \<and> (if dev_accepts s (int n + 2) (module_face (modules c ! n) col)
                    then buttonTexts s1 (int n + 2) = Some (module_label (modules c ! n))
                         \<and> panel_of s1 (int n + 2) = Some (module_face (modules c ! n) col)
                    else buttonTexts s1 (int n + 2) = None \<and> panel_of s1 (int n + 2) = None))"
    and "\<forall>k. k < 0 \<or> int (min (length (modules c)) 30) + 2 \<le> k \<longrightarrow>
          buttonTexts s1 k = None \<and> panel_of s1 k = None \<and> buttonStates s1 (Finite k) = None"
    and "buttonTexts s1 0 = (if dev_accepts s 0 showChains_face then Some ''Show Chains'' else None)"
    and "panel_of s1 1 = (if dev_accepts s 1 (chain_face c) then Some (chain_face c) else None)"
proof -
  obtain bs where bs: "layout_of (modules c) = Inr bs"
    using layout_of_total [OF assms(2)] by blast
  have len: "length bs = length (modules c)"
    using bs by (rule layout_of_length)
  show "fst (loadChain c s) = None"
    using bs by (rule loadChain_ok)
  note texts = loadChain_texts [OF assms(1) bs] and panel = loadChain_panel [OF assms(1) bs]
    and states = loadChain_states [OF assms(1) bs]
  show "\<forall>n < min (length (modules c)) 30.
          buttonStates s1 (Finite (int n + 2)) = Some (module_button_state (modules c ! n))
          \<and> (\<exists>col. getColorForRole (role (modules c ! n)) = Inr col
                \<and> (if dev_accepts s (int n + 2) (module_face (modules c ! n) col)
                    then buttonTexts s1 (int n + 2) = Some (module_label (modules c ! n))
                         \<and> panel_of s1 (int n + 2) = Some (module_face (modules c ! n) col)
                    else buttonTexts s1 (int n + 2) = None \<and> panel_of s1 (int n + 2) = None))"
  proof (intro allI impI)
    fix n assume n: "n < min (length (modules c)) 30"
    then have nth: "label (bs ! n) = module_label (modules c ! n)"
      "getColorForRole (role (modules c ! n)) = Inr (backgroundColor (bs ! n))"
      "textColor (bs ! n) = ''#ffffff''" "fontSize (bs ! n) = 12" "lmodule (bs ! n) = modules c ! n"
      using layout_of_nth [OF bs, of n] by (simp_all add: module_label_def)
    have face: "button_face (bs ! n) = module_face (modules c ! n) (backgroundColor (bs ! n))"
      by (simp add: button_face_def module_face_def nth)
    have st: "module_state (bs ! n) = module_button_state (modules c ! n)"
      by (simp add: module_state_def module_button_state_def nth)
    have k: "2 \<le> int n + 2" "int n + 2 < int (min (length bs) 30) + 2" "nat (int n + 2 - 2) = n"
      using n len by simp_all
    show "buttonStates s1 (Finite (int n + 2)) = Some (module_button_state (modules c ! n))
          \<and> (\<exists>col. getColorForRole (role (modules c ! n)) = Inr col
                \<and> (if dev_accepts s (int n + 2) (module_face (modules c ! n) col)
                    then buttonTexts s1 (int n + 2) = Some (module_label (modules c ! n))
                         \<and> panel_of s1 (int n + 2) = Some (module_face (modules c ! n) col)
                    else buttonTexts s1 (int n + 2) = None \<and> panel_of s1 (int n + 2) = None))"
      unfolding assms(3) texts panel states
      using k nth(1,2) face st by (intro conjI exI [of _ "backgroundColor (bs ! n)"]) simp_all
  qed
  show "\<forall>k. k < 0 \<or> int (min (length (modules c)) 30) + 2 \<le> k \<longrightarrow>
          buttonTexts s1 k = None \<and> panel_of s1 k = None \<and> buttonStates s1 (Finite k) = None"
    unfolding assms(3) texts panel states using len by auto
  show "buttonTexts s1 0 = (if dev_accepts s 0 showChains_face then Some ''Show Chains'' else None)"
    unfolding assms(3) texts by simp
  show "panel_of s1 1 = (if dev_accepts s 1 (chain_face c) then Some (chain_face c) else None)"
    unfolding assms(3) panel by simp
qed

declare presses.simps [simp del]

section \<open>Theorems\<close>

subsection \<open>C1: a press of a module key\<close>

text \<open>
  C1 says that a press of the key of a module runs the callback registered for it and
  stays in the view of the chain. In the view of the chain \<^verbatim>\<open>Drums\<close>, key 2 shows
  \<^verbatim>\<open>Synth A\<close> and holds the press callback of that module; a press of key 2 changes
  nothing at all, and no callback has run after it. (By \<open>handleKeyPress_fired\<close> no press
  ever runs a callback, and by \<open>module_press_may_leave_chain\<close> a press of the key of a module
  called like a chain leaves the view for that chain.)
\<close>

theorem module_press_runs_no_callback:
  "currentChain drums_view = Some drums
   \<and> buttonTexts drums_view 2 = Some ''Synth A''
   \<and> buttonStates drums_view (Finite 2) =
       Some \<lparr>pressCallback = Some (ModulePressed ''Synth A'' synth_a), releaseCallback = None,
              info = ModuleInfo ''Synth A'' (Some ''source'')\<rparr>
   \<and> handleKeyPress (Bare 2) drums_view = (None, drums_view)
   \<and> fired (snd (handleKeyPress (Bare 2) drums_view)) = []"
proof -
  have st: "buttonStates drums_view (Finite 2) =
       Some \<lparr>pressCallback = Some (ModulePressed ''Synth A'' synth_a), releaseCallback = None,
              info = ModuleInfo ''Synth A'' (Some ''source'')\<rparr>"
    by (simp add: drums_view_eq loadChain_states [OF _ layout_drums] module_state_def
        synth_a_def)
  have press: "handleKeyPress (Bare 2) drums_view = (None, drums_view)"
    by (simp add: handleKeyPress_def getButtonText_Bare drums_view_texts or_default_def)
  show ?thesis
    using st press by (simp add: drums_view_texts)
qed

subsection \<open>C2: the slots of the catalog view\<close>

text \<open>
  C2, as stated, puts chain 0 on key 2 and keeps the chains from the 31st on out of every
  slot. With 35 chains loaded, key 1 shows chain 0, key 2 shows chain 1, and key 31 shows
  chain 30, the 31st chain.
\<close>

theorem catalog_slots_counterexample:
  "buttonTexts catalog35 1 = Some ''Chain 0''
   \<and> buttonTexts catalog35 2 = Some ''Chain 1''
   \<and> buttonTexts catalog35 31 = Some ''Chain 30''"
proof -
  have eq: "catalog35 = showChains (started\<lparr>chains := map numbered_chain [0..<35]\<rparr>)"
    unfolding catalog35_def by (rule loadChainLayout_nonempty [OF normalize_numbered]) simp
  show ?thesis
    unfolding eq
    by (simp add: showChains_texts numbered_chain_def string_of_nat.simps digit_char_def)
qed

text \<open>
  C2, amended. In the catalog view the content slots start at key 1: with a device
  opened, chain \<open>i\<close> (for \<open>i\<close> below the number of chains and below 31) is shown on key
  \<open>i + 1\<close>, with its name as text and the face of a chain, whenever the device takes that
  write; every key below 0 or above \<open>min n 31\<close> is empty; key 0 shows \<^verbatim>\<open>Show Chains\<close>.
  So 35 chains give 31 content slots, keys 1 to 31.
\<close>

theorem catalog_view_slots:
  assumes "streamDeck s \<noteq> None"
  shows "(i < length (chains s) \<and> i < 31
            \<and> dev_accepts s (int i + 1) (chain_face (chains s ! i)) \<longrightarrow>
          buttonTexts (showChains s) (int i + 1) = Some (name (chains s ! i))
          \<and> panel_of (showChains s) (int i + 1) = Some (chain_face (chains s ! i)))
       \<and> (k < 0 \<or> int (min (length (chains s)) 31) < k \<longrightarrow>
          buttonTexts (showChains s) k = None \<and> panel_of (showChains s) k = None)
       \<and> (dev_accepts s 0 showChains_face \<longrightarrow>
          buttonTexts (showChains s) 0 = Some ''Show Chains''
          \<and> panel_of (showChains s) 0 = Some showChains_face)"
  using assms by (auto simp: showChains_texts showChains_panel)

text \<open>The theorem at 35 chains, for chain 30 and key 32.\<close>

theorem catalog_view_slots_witness:
  "streamDeck (started\<lparr>chains := map numbered_chain [0..<35]\<rparr>) \<noteq> None
   \<and> (30::nat) < length (chains (started\<lparr>chains := map numbered_chain [0..<35]\<rparr>))
   \<and> buttonTexts (showChains (started\<lparr>chains := map numbered_chain [0..<35]\<rparr>)) 31
       = Some ''Chain 30''
   \<and> buttonTexts (showChains (started\<lparr>chains := map numbered_chain [0..<35]\<rparr>)) 32 = None
   \<and> buttonTexts (showChains (started\<lparr>chains := map numbered_chain [0..<35]\<rparr>)) 0
       = Some ''Show Chains''"
  using catalog_view_slots [of "started\<lparr>chains := map numbered_chain [0..<35]\<rparr>" 30 32]
  by (simp add: numbered_chain_def string_of_nat.simps digit_char_def)

subsection \<open>C3: the colour of a role\<close>

text \<open>
  C3, as stated, sends every role other than \<^verbatim>\<open>source\<close>, \<^verbatim>\<open>proc\<close> and \<^verbatim>\<open>dest\<close> to gray
  and never fails. A module whose role object has the key \<^verbatim>\<open>SOURCE\<close> gets dark blue,
  and for a module without a role the lookup throws (by
  \<open>press_chain_without_role_throws\<close> the press that selects its chain ends in that exception).
\<close>

theorem role_color_counterexample:
  "getColorForRole (role (module_of bare_cell L (side_named ''m'' None (Some [''SOURCE''])))) =
     Inr ''#00008B''
   \<and> getColorForRole (role (module_of bare_cell L bare_side)) =
     Inl (TypeError ''Cannot read properties of undefined (reading 'toLowerCase')'')"
  by (simp add: getColorForRole_def module_of_def side_named_def bare_side_def
      toLowerCase_simps lower_char_def)

text \<open>
  C3, amended. For a role that is present the lookup succeeds and goes by the role in
  lower case: \<^verbatim>\<open>source\<close> gives dark blue, \<^verbatim>\<open>proc\<close> dark orange, \<^verbatim>\<open>dest\<close> dark green, any
  other present role dark gray. The role of a module is the first key of the role object
  of its side, and a list of modules that all have a role gets its layout, one button
  for each module.
\<close>

theorem role_color_lookup:
  "(toLowerCase r = ''source'' \<longrightarrow> getColorForRole (Some r) = Inr ''#00008B'')
   \<and> (toLowerCase r = ''proc'' \<longrightarrow> getColorForRole (Some r) = Inr ''#FF8C00'')
   \<and> (toLowerCase r = ''dest'' \<longrightarrow> getColorForRole (Some r) = Inr ''#006400'')
   \<and> (toLowerCase r \<notin> {''source'', ''proc'', ''dest''} \<longrightarrow>
        getColorForRole (Some r) = Inr ''#333333'')
   \<and> (rs_role side = Some (r # rs) \<longrightarrow>
        getColorForRole (role (module_of cell ch side)) = getColorForRole (Some r))
   \<and> ((\<forall>m \<in> set ms. role m \<noteq> None) \<longrightarrow>
        (\<exists>bs. layout_of ms = Inr bs \<and> length bs = length ms))"
proof -
  have "(\<forall>m \<in> set ms. role m \<noteq> None) \<longrightarrow> (\<exists>bs. layout_of ms = Inr bs \<and> length bs = length ms)"
    using layout_of_total [of ms] layout_of_length [of ms] by blast
  then show ?thesis
    by (simp add: getColorForRole_def module_of_def Let_def)
qed

text \<open>The theorem at the roles \<^verbatim>\<open>source\<close>, \<^verbatim>\<open>Proc\<close>, \<^verbatim>\<open>DEST\<close> and \<^verbatim>\<open>mixer\<close>,
  and at the two modules of the chain \<^verbatim>\<open>Drums\<close>.\<close>

theorem role_color_lookup_witness:
  "getColorForRole (Some ''source'') = Inr ''#00008B''
   \<and> getColorForRole (Some ''Proc'') = Inr ''#FF8C00''
   \<and> getColorForRole (Some ''DEST'') = Inr ''#006400''
   \<and> getColorForRole (Some ''mixer'') = Inr ''#333333''
   \<and> getColorForRole (role (module_of bare_cell L (side_named ''m1'' (Some ''Synth A'')
        (Some [''source''])))) = Inr ''#00008B''
   \<and> (\<exists>bs. layout_of [synth_a, comp_1] = Inr bs \<and> length bs = 2)"
proof -
  note source = role_color_lookup [of "''source''"
      "side_named ''m1'' (Some ''Synth A'') (Some [''source''])" "[]" bare_cell L
      "[synth_a, comp_1]"]
  have lower: "toLowerCase ''source'' = ''source''" "toLowerCase ''Proc'' = ''proc''"
    "toLowerCase ''DEST'' = ''dest''" "toLowerCase ''mixer'' = ''mixer''"
    by (simp_all add: toLowerCase_simps lower_char_def)
  have c1: "getColorForRole (Some ''source'') = Inr ''#00008B''"
    using source lower by blast
  have c2: "getColorForRole (Some ''Proc'') = Inr ''#FF8C00''"
    using role_color_lookup [of "''Proc''" bare_side "[]" bare_cell L "[]"] lower by blast
  have c3: "getColorForRole (Some ''DEST'') = Inr ''#006400''"
    using role_color_lookup [of "''DEST''" bare_side "[]" bare_cell L "[]"] lower by blast
  have "''mixer'' \<notin> {''source'', ''proc'', ''dest''}" by simp
  then have c4: "getColorForRole (Some ''mixer'') = Inr ''#333333''"
    using role_color_lookup [of "''mixer''" bare_side "[]" bare_cell L "[]"] lower by metis
  have "rs_role (side_named ''m1'' (Some ''Synth A'') (Some [''source''])) = Some [''source'']"
    by (simp add: side_named_def)
  then have c5: "getColorForRole (role (module_of bare_cell L (side_named ''m1'' (Some ''Synth A'')
        (Some [''source''])))) = Inr ''#00008B''"
    using source c1 by simp
  have "\<forall>m \<in> set [synth_a, comp_1]. role m \<noteq> None"
    by (simp add: synth_a_def comp_1_def)
  then have c6: "\<exists>bs. layout_of [synth_a, comp_1] = Inr bs \<and> length bs = 2"
    using source by auto
  from c1 c2 c3 c4 c5 c6 show ?thesis by blast
qed

subsection \<open>C4: a load that finds no chains\<close>

text \<open>
  C4, as stated, keeps the catalog over a load that finds no chains. After the catalog
  of two chains, the load of a document without chains leaves the catalog empty.
\<close>

theorem empty_load_counterexample:
  "chains loaded = [drums, bass] \<and> chains (loadChainLayout (Inr empty_doc) loaded) = []"
  by (simp add: chains_loaded loadChainLayout_def normalize_empty log_error_def)

text \<open>
  C4, amended. A load whose chain sequence is empty logs the error
  \<^verbatim>\<open>No chains found in the JSON file.\<close> and leaves the controller as it was but for the
  catalog, which is now empty. A load that throws before the sequence is built (while
  reading, parsing or normalizing) logs the exception and changes nothing else. A load
  with a non-empty sequence replaces the catalog by it and shows the catalog view.
\<close>

theorem load_outcomes:
  "(normalize_doc data = Inr [] \<longrightarrow>
      loadChainLayout (Inr data) s =
        s\<lparr>chains := [],
          console_errors := console_errors s @ [Error ''No chains found in the JSON file.'']\<rparr>)
   \<and> (normalize_doc data = Inl e \<longrightarrow>
      loadChainLayout (Inr data) s = s\<lparr>console_errors := console_errors s @ [e]\<rparr>)
   \<and> (normalize_doc data = Inr cs \<and> cs \<noteq> [] \<longrightarrow>
      loadChainLayout (Inr data) s = showChains (s\<lparr>chains := cs\<rparr>)
      \<and> chains (loadChainLayout (Inr data) s) = cs)
   \<and> loadChainLayout (Inl e') s = s\<lparr>console_errors := console_errors s @ [e']\<rparr>"
  by (simp add: loadChainLayout_def log_error_def)

text \<open>The theorem at the three documents: no chains, an empty list of lanes, two chains.\<close>

theorem load_outcomes_witness:
  "normalize_doc empty_doc = Inr []
   \<and> chains (loadChainLayout (Inr empty_doc) loaded) = []
   \<and> console_errors (loadChainLayout (Inr empty_doc) loaded) =
       console_errors loaded @ [Error ''No chains found in the JSON file.'']
   \<and> buttonTexts (loadChainLayout (Inr empty_doc) loaded) = buttonTexts loaded
   \<and> normalize_doc no_lane_doc =
       Inl (TypeError ''Cannot read properties of undefined (reading 'cells')'')
   \<and> chains (loadChainLayout (Inr no_lane_doc) loaded) = chains loaded
   \<and> normalize_doc two_chains_doc = Inr [drums, bass] \<and> [drums, bass] \<noteq> []
   \<and> chains (loadChainLayout (Inr two_chains_doc) started) = [drums, bass]"
  using load_outcomes [of empty_doc loaded _ "[]"]
        load_outcomes [of no_lane_doc loaded
          "TypeError ''Cannot read properties of undefined (reading 'cells')''" "[]"]
        load_outcomes [of two_chains_doc started _ "[drums, bass]"]
  by (simp add: normalize_empty normalize_no_lane normalize_two_chains)

subsection \<open>C5: missing fields of the document\<close>

text \<open>
  C5, as stated, lets no missing part of a chain fail the load and puts the documented
  fallback in the place of every absent field. A chain whose list of lanes is empty
  makes the normalization throw, and a side without device and role becomes a module
  whose \<open>deviceName\<close> and \<open>role\<close> are absent.
\<close>

theorem normalize_counterexample:
  "normalize_js no_lane_js =
     Inl (TypeError ''Cannot read properties of undefined (reading 'cells')'')
   \<and> normalize_js bare_js =
     Inr [\<lparr>j_name = JString ''Unnamed Chain'', j_id = JUndefined, j_midiChannel = JUndefined,
           j_active = JBool False,
           j_modules = [\<lparr>jm_name = JString ''m'', jm_deviceName = JUndefined, jm_role = None,
                         jm_midiNote = JUndefined, jm_channel = L, jm_phonia = JUndefined,
                         jm_tags = JUndefined, jm_ab = JUndefined\<rparr>]\<rparr>]"
  by (simp add: normalize_js_no_lane normalize_js_bare)

text \<open>
  C5, amended. For every decoded document that is \<open>shaped\<close> (\<^verbatim>\<open>chains\<close> is there; no
  chain, cell or item is \<^verbatim>\<open>null\<close>; \<^verbatim>\<open>lanes\<close>, where it is there, has a first element that
  is not \<^verbatim>\<open>null\<close>; \<^verbatim>\<open>cells\<close> and \<^verbatim>\<open>items\<close>, where they are there, are arrays) the
  normalization succeeds with one chain for each value of \<^verbatim>\<open>chains\<close>. The name of a chain
  is the given one, and \<^verbatim>\<open>Unnamed Chain\<close> without \<^verbatim>\<open>state\<close> or without a (truthy) name, so
  it is never empty; the id and the MIDI channel are the given ones and stay absent
  otherwise; the chain is inactive without \<^verbatim>\<open>cond\<close> or \<^verbatim>\<open>cond.active\<close>; it has no modules
  without \<^verbatim>\<open>lanes\<close> or without the \<^verbatim>\<open>cells\<close> of its first lane. The modules of a chain
  are, one for one and in this order, the sides of \<open>expected_sides\<close>: each module has the
  channel, the name, the phonia and the tags of its side and the \<^verbatim>\<open>ab\<close> of its cell; its
  device name, its MIDI note and its role stay absent when the side has no device, no
  MIDI record or no role (no placeholder is put in at this point); otherwise the role is
  the first key of the role object.
\<close>

theorem normalize_js_total:
  assumes "shaped data" and "vs = own_values (prop_of data ''chains'')"
  shows "\<exists>cs. normalize_js data = Inr cs \<and> length cs = length vs
     \<and> (\<forall>i < length vs.
          truthy (j_name (cs ! i))
          \<and> (if truthy (opt_prop (prop_of (vs ! i) ''state'') ''name'')
              then j_name (cs ! i) = opt_prop (prop_of (vs ! i) ''state'') ''name''
              else j_name (cs ! i) = JString ''Unnamed Chain'')
          \<and> j_id (cs ! i) = prop_of (vs ! i) ''id''
          \<and> j_midiChannel (cs ! i) = opt_prop (prop_of (vs ! i) ''state'') ''midiChannel''
          \<and> (nullish (prop_of (vs ! i) ''state'') \<longrightarrow> j_midiChannel (cs ! i) = JUndefined)
          \<and> (if truthy (opt_prop (prop_of (vs ! i) ''cond'') ''active'')
              then j_active (cs ! i) = opt_prop (prop_of (vs ! i) ''cond'') ''active''
              else j_active (cs ! i) = JBool False)
          \<and> (nullish (prop_of (vs ! i) ''lanes'')
               \<or> nullish (prop_of (first_element (prop_of (vs ! i) ''lanes'')) ''cells'') \<longrightarrow>
              j_modules (cs ! i) = [])
          \<and> length (j_modules (cs ! i)) = length (expected_sides (vs ! i))
          \<and> (\<forall>k < length (expected_sides (vs ! i)).
                (case expected_sides (vs ! i) ! k of
                   (cell, ch, side) \<Rightarrow>
                     jm_channel (j_modules (cs ! i) ! k) = ch
                     \<and> jm_name (j_modules (cs ! i) ! k) = prop_of side ''name''
                     \<and> jm_phonia (j_modules (cs ! i) ! k) = prop_of side ''phonia''
                     \<and> jm_tags (j_modules (cs ! i) ! k) = prop_of side ''tags''
                     \<and> jm_ab (j_modules (cs ! i) ! k) = prop_of cell ''ab''
                     \<and> jm_deviceName (j_modules (cs ! i) ! k) =
                         opt_prop (prop_of side ''device'') ''name''
                     \<and> (nullish (prop_of side ''device'') \<longrightarrow>
                          jm_deviceName (j_modules (cs ! i) ! k) = JUndefined)
                     \<and> jm_midiNote (j_modules (cs ! i) ! k) =
                         opt_prop (prop_of side ''midi'') ''note''
                     \<and> (nullish (prop_of side ''midi'') \<longrightarrow>
                          jm_midiNote (j_modules (cs ! i) ! k) = JUndefined)
                     \<and> (\<not> truthy (prop_of side ''role'') \<longrightarrow>
                          jm_role (j_modules (cs ! i) ! k) = None)
                     \<and> (\<forall>kvs. prop_of side ''role'' = JObject kvs \<longrightarrow>
                          jm_role (j_modules (cs ! i) ! k) =
                            (case kvs of [] \<Rightarrow> None | kv # rest \<Rightarrow> Some (fst kv))))))"
proof -
  define chain_js where "chain_js = (\<lambda>chain.
     \<lparr>j_name = js_or (opt_prop (prop_of chain ''state'') ''name'') (JString ''Unnamed Chain''),
      j_id = prop_of chain ''id'',
      j_midiChannel = opt_prop (prop_of chain ''state'') ''midiChannel'',
      j_active = js_or (opt_prop (prop_of chain ''cond'') ''active'') (JBool False),
      j_modules = map (\<lambda>(c, ch, side). jmodule_of c ch side) (expected_sides chain)\<rparr>)"
  have n: "normalize_js data = Inr (map chain_js vs)"
    unfolding chain_js_def assms(2) by (rule normalize_js_shaped [OF assms(1)])
  have empty: "expected_sides chain = []"
    if "nullish (prop_of chain ''lanes'')
        \<or> nullish (prop_of (first_element (prop_of chain ''lanes'')) ''cells'')" for chain
    using that by (auto simp: expected_sides_def first_lane_cells_def nullish_def)
  have modules: "(case expected_sides chain ! k of
       (cell, ch, side) \<Rightarrow>
         jm_channel (j_modules (chain_js chain) ! k) = ch
         \<and> jm_name (j_modules (chain_js chain) ! k) = prop_of side ''name''
         \<and> jm_phonia (j_modules (chain_js chain) ! k) = prop_of side ''phonia''
         \<and> jm_tags (j_modules (chain_js chain) ! k) = prop_of side ''tags''
         \<and> jm_ab (j_modules (chain_js chain) ! k) = prop_of cell ''ab''
         \<and> jm_deviceName (j_modules (chain_js chain) ! k) =
             opt_prop (prop_of side ''device'') ''name''
         \<and> (nullish (prop_of side ''device'') \<longrightarrow>
              jm_deviceName (j_modules (chain_js chain) ! k) = JUndefined)
         \<and> jm_midiNote (j_modules (chain_js chain) ! k) =
             opt_prop (prop_of side ''midi'') ''note''
         \<and> (nullish (prop_of side ''midi'') \<longrightarrow>
              jm_midiNote (j_modules (chain_js chain) ! k) = JUndefined)
         \<and> (\<not> truthy (prop_of side ''role'') \<longrightarrow>
              jm_role (j_modules (chain_js chain) ! k) = None)
         \<and> (\<forall>kvs. prop_of side ''role'' = JObject kvs \<longrightarrow>
              jm_role (j_modules (chain_js chain) ! k) =
                (case kvs of [] \<Rightarrow> None | kv # rest \<Rightarrow> Some (fst kv))))"
    if "k < length (expected_sides chain)" for chain k
    using that
    by (cases "expected_sides chain ! k")
       (auto simp: chain_js_def jmodule_of_def opt_prop_def js_or_def own_keys_def
          split: list.splits)
  have chain: "truthy (j_name (chain_js chain))
      \<and> (if truthy (opt_prop (prop_of chain ''state'') ''name'')
          then j_name (chain_js chain) = opt_prop (prop_of chain ''state'') ''name''
          else j_name (chain_js chain) = JString ''Unnamed Chain'')
      \<and> j_id (chain_js chain) = prop_of chain ''id''
      \<and> j_midiChannel (chain_js chain) = opt_prop (prop_of chain ''state'') ''midiChannel''
      \<and> (nullish (prop_of chain ''state'') \<longrightarrow> j_midiChannel (chain_js chain) = JUndefined)
      \<and> (if truthy (opt_prop (prop_of chain ''cond'') ''active'')
          then j_active (chain_js chain) = opt_prop (prop_of chain ''cond'') ''active''
          else j_active (chain_js chain) = JBool False)
      \<and> (nullish (prop_of chain ''lanes'')
           \<or> nullish (prop_of (first_element (prop_of chain ''lanes'')) ''cells'') \<longrightarrow>
          j_modules (chain_js chain) = [])
      \<and> length (j_modules (chain_js chain)) = length (expected_sides chain)" for chain
    using empty [of chain] by (auto simp: chain_js_def js_or_def opt_prop_def)
  show ?thesis
    using n chain modules by (intro exI [of _ "map chain_js vs"]) (simp add: opt_prop_def)
qed

text \<open>The theorem at the document whose chain has no state and no condition, and whose
  only side has a name and nothing else.\<close>

theorem normalize_js_total_witness:
  "shaped bare_js \<and> [bare_chain_js] = own_values (prop_of bare_js ''chains'')
   \<and> expected_sides bare_chain_js = [(bare_cell_js, L, bare_side_js)]
   \<and> (\<exists>cs. normalize_js bare_js = Inr cs \<and> length cs = 1
         \<and> j_name (cs ! 0) = JString ''Unnamed Chain''
         \<and> j_midiChannel (cs ! 0) = JUndefined
         \<and> j_active (cs ! 0) = JBool False
         \<and> length (j_modules (cs ! 0)) = 1
         \<and> jm_channel (j_modules (cs ! 0) ! 0) = L
         \<and> jm_name (j_modules (cs ! 0) ! 0) = JString ''m''
         \<and> jm_deviceName (j_modules (cs ! 0) ! 0) = JUndefined
         \<and> jm_role (j_modules (cs ! 0) ! 0) = None
         \<and> jm_midiNote (j_modules (cs ! 0) ! 0) = JUndefined
         \<and> jm_tags (j_modules (cs ! 0) ! 0) = JUndefined)"
proof -
  have v: "[bare_chain_js] = own_values (prop_of bare_js ''chains'')"
    by (simp add: bare_js_def prop_of_def own_values_def)
  have p: "prop_of bare_chain_js ''state'' = JUndefined"
    "prop_of bare_chain_js ''cond'' = JUndefined"
    "prop_of bare_side_js ''name'' = JString ''m''"
    "prop_of bare_side_js ''device'' = JUndefined"
    "prop_of bare_side_js ''role'' = JUndefined"
    "prop_of bare_side_js ''midi'' = JUndefined"
    "prop_of bare_side_js ''tags'' = JUndefined"
    by (simp_all add: bare_chain_js_def bare_side_js_def prop_of_def)
  from normalize_js_total [OF shaped_bare v]
  obtain cs where cs: "normalize_js bare_js = Inr cs" "length cs = length [bare_chain_js]"
    and each: "\<forall>i < length [bare_chain_js].
          truthy (j_name (cs ! i))
          \<and> (if truthy (opt_prop (prop_of ([bare_chain_js] ! i) ''state'') ''name'')
              then j_name (cs ! i) = opt_prop (prop_of ([bare_chain_js] ! i) ''state'') ''name''
              else j_name (cs ! i) = JString ''Unnamed Chain'')
          \<and> j_id (cs ! i) = prop_of ([bare_chain_js] ! i) ''id''
          \<and> j_midiChannel (cs ! i) = opt_prop (prop_of ([bare_chain_js] ! i) ''state'') ''midiChannel''
          \<and> (nullish (prop_of ([bare_chain_js] ! i) ''state'') \<longrightarrow> j_midiChannel (cs ! i) = JUndefined)
          \<and> (if truthy (opt_prop (prop_of ([bare_chain_js] ! i) ''cond'') ''active'')
              then j_active (cs ! i) = opt_prop (prop_of ([bare_chain_js] ! i) ''cond'') ''active''
              else j_active (cs ! i) = JBool False)
          \<and> (nullish (prop_of ([bare_chain_js] ! i) ''lanes'')
               \<or> nullish (prop_of (first_element (prop_of ([bare_chain_js] ! i) ''lanes'')) ''cells'') \<longrightarrow>
              j_modules (cs ! i) = [])
          \<and> length (j_modules (cs ! i)) = length (expected_sides ([bare_chain_js] ! i))
          \<and> (\<forall>k < length (expected_sides ([bare_chain_js] ! i)).
                (case expected_sides ([bare_chain_js] ! i) ! k of
                   (cell, ch, side) \<Rightarrow>
                     jm_channel (j_modules (cs ! i) ! k) = ch
                     \<and> jm_name (j_modules (cs ! i) ! k) = prop_of side ''name''
                     \<and> jm_phonia (j_modules (cs ! i) ! k) = prop_of side ''phonia''
                     \<and> jm_tags (j_modules (cs ! i) ! k) = prop_of side ''tags''
                     \<and> jm_ab (j_modules (cs ! i) ! k) = prop_of cell ''ab''
                     \<and> jm_deviceName (j_modules (cs ! i) ! k) =
                         opt_prop (prop_of side ''device'') ''name''
                     \<and> (nullish (prop_of side ''device'') \<longrightarrow>
                          jm_deviceName (j_modules (cs ! i) ! k) = JUndefined)
                     \<and> jm_midiNote (j_modules (cs ! i) ! k) =
                         opt_prop (prop_of side ''midi'') ''note''
                     \<and> (nullish (prop_of side ''midi'') \<longrightarrow>
                          jm_midiNote (j_modules (cs ! i) ! k) = JUndefined)
                     \<and> (\<not> truthy (prop_of side ''role'') \<longrightarrow>
                          jm_role (j_modules (cs ! i) ! k) = None)
                     \<and> (\<forall>kvs. prop_of side ''role'' = JObject kvs \<longrightarrow>
                          jm_role (j_modules (cs ! i) ! k) =
                            (case kvs of [] \<Rightarrow> None | kv # rest \<Rightarrow> Some (fst kv)))))"
    by blast
  from each have "truthy (j_name (cs ! 0))
     \<and> j_name (cs ! 0) = JString ''Unnamed Chain''
     \<and> j_midiChannel (cs ! 0) = JUndefined
     \<and> j_active (cs ! 0) = JBool False
     \<and> length (j_modules (cs ! 0)) = 1
     \<and> jm_channel (j_modules (cs ! 0) ! 0) = L
     \<and> jm_name (j_modules (cs ! 0) ! 0) = JString ''m''
     \<and> jm_deviceName (j_modules (cs ! 0) ! 0) = JUndefined
     \<and> jm_role (j_modules (cs ! 0) ! 0) = None
     \<and> jm_midiNote (j_modules (cs ! 0) ! 0) = JUndefined
     \<and> jm_tags (j_modules (cs ! 0) ! 0) = JUndefined"
    by (simp add: p expected_sides_bare opt_prop_def)
  moreover have "length cs = 1"
    using cs(2) by simp
  ultimately show ?thesis
    using cs(1) shaped_bare v expected_sides_bare by blast
qed

subsection \<open>C6: a press of the chain header\<close>

text \<open>
  C6 says that key 1 shows the name of the current chain, and that a press of it runs
  the callback registered for it and nothing else. In the view of the chain \<^verbatim>\<open>Drums\<close>,
  key 1 shows \<^verbatim>\<open>Drums\<close> and holds the callback of the chain header; a press of key 1
  looks the chain up by that text and loads it again (the deck is reset and drawn anew),
  and no callback has run after it.
\<close>

theorem chain_header_press_reloads_chain:
  "buttonTexts drums_view 1 = Some ''Drums''
   \<and> buttonStates drums_view (Finite 1) =
       Some \<lparr>pressCallback = Some (CurrentChainPressed ''Drums''), releaseCallback = None,
              info = CurrentChainInfo ''Drums''\<rparr>
   \<and> handleKeyPress (Bare 1) drums_view = loadChain drums drums_view
   \<and> fired (snd (handleKeyPress (Bare 1) drums_view)) = []"
proof -
  have st: "buttonStates drums_view (Finite 1) =
       Some \<lparr>pressCallback = Some (CurrentChainPressed ''Drums''), releaseCallback = None,
              info = CurrentChainInfo ''Drums''\<rparr>"
    by (simp add: drums_view_eq loadChain_states [OF _ layout_drums])
  have press: "handleKeyPress (Bare 1) drums_view = loadChain drums drums_view"
    by (simp add: handleKeyPress_def getButtonText_Bare drums_view_texts or_default_def)
  show ?thesis
    using st press by (simp add: drums_view_texts)
qed

subsection \<open>C7: key presses on an empty catalog\<close>

text \<open>
  C7, as stated, leaves the display blank at every press while the catalog is empty.
  On the controller just started, and again after a load that found no chains, a press
  of key 0 draws the \<^verbatim>\<open>Show Chains\<close> face on key 0.
\<close>

theorem empty_catalog_counterexample:
  "chains started = [] \<and> panel_of started = Map.empty
   \<and> panel_of (snd (handleKeyPress (Bare 0) started)) 0 = Some showChains_face
   \<and> chains (loadChainLayout (Inr empty_doc) started) = []
   \<and> panel_of (snd (handleKeyPress (Bare 0) (loadChainLayout (Inr empty_doc) started))) 0 =
       Some showChains_face"
  by (simp add: handleKeyPress_0 showChains_panel loadChainLayout_def normalize_empty
      log_error_def)

text \<open>
  C7, amended. While the catalog is empty, a press of a key other than 0 changes
  nothing and throws nothing. A press of key 0 throws nothing either; it shows the
  catalog view of the empty catalog: the catalog stays empty, no callback runs, key 0
  shows \<^verbatim>\<open>Show Chains\<close> if the device takes the write, and every other key is blank.
\<close>

theorem empty_catalog_presses:
  assumes "chains s = []"
  shows "(getKeyIndex k \<noteq> 0 \<longrightarrow> handleKeyPress k s = (None, s))
     \<and> (getKeyIndex k = 0 \<longrightarrow>
          handleKeyPress k s = (None, showChains s)
          \<and> chains (showChains s) = []
          \<and> fired (showChains s) = fired s
          \<and> panel_of (showChains s) 0 =
              (if dev_accepts s 0 showChains_face then Some showChains_face else None)
          \<and> (j \<noteq> 0 \<longrightarrow> panel_of (showChains s) j = None
                \<and> buttonTexts (showChains s) j = (if streamDeck s = None then buttonTexts s j else None)))"
proof (cases "streamDeck s = None")
  case True
  then have "showChains s = s" by (rule showChains_no_device)
  then show ?thesis
    using assms True by (simp add: handleKeyPress_def dev_accepts_def panel_of_def)
next
  case False
  then show ?thesis
    using assms by (auto simp: handleKeyPress_def showChains_panel showChains_texts)
qed

text \<open>The theorem after a load that found no chains, for an object payload with index
  5 and for key 0.\<close>

theorem empty_catalog_presses_witness:
  "chains (loadChainLayout (Inr empty_doc) started) = []
   \<and> handleKeyPress (Structured 5) (loadChainLayout (Inr empty_doc) started) =
       (None, loadChainLayout (Inr empty_doc) started)
   \<and> handleKeyPress (Bare 0) (loadChainLayout (Inr empty_doc) started) =
       (None, showChains (loadChainLayout (Inr empty_doc) started))
   \<and> panel_of (showChains (loadChainLayout (Inr empty_doc) started)) 0 = Some showChains_face
   \<and> panel_of (showChains (loadChainLayout (Inr empty_doc) started)) 7 = None"
proof -
  have c: "chains (loadChainLayout (Inr empty_doc) started) = []"
    by (simp add: loadChainLayout_def normalize_empty log_error_def)
  have a: "dev_accepts (loadChainLayout (Inr empty_doc) started) 0 showChains_face"
    by (simp add: loadChainLayout_def normalize_empty log_error_def)
  from empty_catalog_presses [OF c, of "Structured 5" 7]
       empty_catalog_presses [OF c, of "Bare 0" 7] c a
  show ?thesis by simp
qed

subsection \<open>C8: from the catalog to a chain and back\<close>

text \<open>
  C8, as stated, has the press of the slot of a chain select that chain, and never the
  chain selected before. With two chains named \<^verbatim>\<open>Drums\<close>, key 2 is the slot of the
  second one; after a press of key 1 and a press of key 0, a press of key 2 selects the
  first chain again.
\<close>

theorem same_name_counterexample:
  "chains twins = [drums, drums_twin] \<and> drums_twin \<noteq> drums
   \<and> buttonTexts twins 2 = Some (name drums_twin)
   \<and> currentChain (snd (handleKeyPress (Bare 1) twins)) = Some drums
   \<and> currentChain (snd (handleKeyPress (Bare 2)
        (snd (handleKeyPress (Bare 0) (snd (handleKeyPress (Bare 1) twins)))))) = Some drums"
proof -
  have t: "buttonTexts twins 1 = Some ''Drums''" "buttonTexts twins 2 = Some ''Drums''"
    "chains twins = [drums, drums_twin]" "streamDeck twins \<noteq> None"
    "dev_accepts twins = (\<lambda>k f. True)"
    by (simp_all add: twins_eq showChains_texts fun_eq_iff)
  have p1: "handleKeyPress (Bare 1) twins = loadChain drums twins"
    by (simp add: handleKeyPress_def getButtonText_Bare t or_default_def)
  define t2 where "t2 = snd (handleKeyPress (Bare 0) (snd (handleKeyPress (Bare 1) twins)))"
  have t2: "t2 = showChains (snd (loadChain drums twins))"
    by (simp add: t2_def p1 handleKeyPress_0)
  have "buttonTexts t2 2 = Some ''Drums''" "chains t2 = [drums, drums_twin]"
    by (simp_all add: t2 showChains_texts t)
  then have "handleKeyPress (Bare 2) t2 = loadChain drums t2"
    by (simp add: handleKeyPress_def getButtonText_Bare or_default_def)
  then have "currentChain (snd (handleKeyPress (Bare 2) t2)) = Some drums"
    by simp
  moreover have "drums_twin \<noteq> drums"
    by (simp add: drums_twin_def drums_def bass_def)
  ultimately show ?thesis
    using t p1 by (simp add: t2_def)
qed

text \<open>
  C8, amended. Let each key press be handled to its end before the next key event is
  delivered (\<open>presses\<close>), and let a catalog be loaded and shown on an opened device. A
  press of the drawn slot of chain \<open>i\<close> selects \<open>c\<close>, the first chain of the catalog that
  has the name of chain \<open>i\<close> (chain \<open>i\<close> itself when the names are distinct). When every
  module of \<open>c\<close> has a role, the press throws nothing and the controller is in the view
  of \<open>c\<close>: key 0 shows \<^verbatim>\<open>Show Chains\<close>, key 1 shows the name of \<open>c\<close> and holds the header
  callback, the keys from 2 on show the first 30 modules of \<open>c\<close> with their colours and
  hold their callbacks (a text or face is there when the device took the write), and
  every other key is blank and holds nothing. A press of key 0 then throws nothing and
  shows the catalog view again, with the catalog, the texts, the faces and the (empty)
  table of button states it had. A press of the drawn slot of chain \<open>j\<close> then selects
  \<open>c'\<close>, the first chain that has the name of chain \<open>j\<close>, and sets up its header on key 1;
  \<open>c'\<close> is not \<open>c\<close> when the two names differ.
\<close>

theorem navigation_round_trip:
  assumes "streamDeck s0 \<noteq> None"
    and "normalize_doc data = Inr cs" and "cs \<noteq> []"
    and "s = loadChainLayout (Inr data) s0"
    and "i < length cs" and "i < 31" and "dev_accepts s0 (int i + 1) (chain_face (cs ! i))"
    and "j < length cs" and "j < 31" and "dev_accepts s0 (int j + 1) (chain_face (cs ! j))"
    and "find (\<lambda>c. name c = name (cs ! i)) cs = Some c"
    and "\<forall>m \<in> set (modules c). role m \<noteq> None"
    and "find (\<lambda>c. name c = name (cs ! j)) cs = Some c'"
    and "s1 = snd (presses [Bare (int i + 1)] s)"
    and "s2 = snd (presses [Bare (int i + 1), Bare 0] s)"
    and "s3 = snd (presses [Bare (int i + 1), Bare 0, Bare (int j + 1)] s)"
  shows "chains s = cs \<and> buttonStates s = Map.empty
     \<and> buttonTexts s (int i + 1) = Some (name (cs ! i))
     \<and> fst (presses [Bare (int i + 1)] s) = None
     \<and> currentChain s1 = Some c \<and> chains s1 = cs
     \<and> buttonStates s1 (Finite 1) = Some (header_state c)
     \<and> buttonTexts s1 0 = (if dev_accepts s0 0 showChains_face then Some ''Show Chains'' else None)
     \<and> buttonTexts s1 1 = (if dev_accepts s0 1 (chain_face c) then Some (name c) else None)
     \<and> panel_of s1 1 = (if dev_accepts s0 1 (chain_face c) then Some (chain_face c) else None)
     \<and> (\<forall>n < min (length (modules c)) 30.
          buttonStates s1 (Finite (int n + 2)) = Some (module_button_state (modules c ! n))
          \<and> (\<exists>col. getColorForRole (role (modules c ! n)) = Inr col
                \<and> (if dev_accepts s0 (int n + 2) (module_face (modules c ! n) col)
                    then buttonTexts s1 (int n + 2) = Some (module_label (modules c ! n))
                         \<and> panel_of s1 (int n + 2) = Some (module_face (modules c ! n) col)
                    else buttonTexts s1 (int n + 2) = None \<and> panel_of s1 (int n + 2) = None)))
     \<and> (\<forall>k. k < 0 \<or> int (min (length (modules c)) 30) + 2 \<le> k \<longrightarrow>
          buttonTexts s1 k = None \<and> panel_of s1 k = None \<and> buttonStates s1 (Finite k) = None)
     \<and> fst (presses [Bare (int i + 1), Bare 0] s) = None
     \<and> chains s2 = cs \<and> buttonTexts s2 = buttonTexts s \<and> panel_of s2 = panel_of s
     \<and> buttonStates s2 = buttonStates s
     \<and> currentChain s3 = Some c'
     \<and> buttonStates s3 (Finite 1) = Some (header_state c')
     \<and> buttonTexts s3 1 = (if dev_accepts s0 1 (chain_face c') then Some (name c') else None)
     \<and> (name (cs ! j) \<noteq> name (cs ! i) \<longrightarrow> c' \<noteq> c)
     \<and> (distinct (map name cs) \<longrightarrow> c = cs ! i \<and> c' = cs ! j)"
proof -
  define t0 where "t0 = s0\<lparr>chains := cs\<rparr>"
  have t0: "streamDeck t0 \<noteq> None" "chains t0 = cs" "dev_accepts t0 = dev_accepts s0"
    using assms(1) by (simp_all add: t0_def)
  have s: "s = showChains t0"
    unfolding assms(4) t0_def by (rule loadChainLayout_nonempty [OF assms(2,3)])
  have cat: "streamDeck s \<noteq> None" "chains s = cs" "dev_accepts s = dev_accepts s0"
    "buttonStates s = Map.empty"
    using t0 by (simp_all add: s showChains_states)
  have names: "name (cs ! i) \<noteq> []" "name (cs ! j) \<noteq> []"
    using normalize_doc_names [OF assms(2)] assms(5,8) by simp_all
  have slot: "buttonTexts s (int i + 1) = Some (name (cs ! i))"
    unfolding s using t0 assms(5,6,7) by (auto simp: showChains_texts)
  have p1: "handleKeyPress (Bare (int i + 1)) s = loadChain c s"
    using press_chain_slot [of t0 i] t0 assms(5,6,7,11) names(1) by (auto simp: s)
  have view: "fst (loadChain c s) = None"
    by (rule chain_view(1) [OF cat(1) assms(12) refl])
  define st where "st = snd (loadChain c s)"
  have lc: "loadChain c s = (None, st)"
    using view by (cases "loadChain c s") (simp add: st_def)
  have run1: "presses [Bare (int i + 1)] s = (None, st)"
    by (simp add: presses.simps p1 lc)
  then have s1st: "s1 = st"
    by (simp add: assms(14))
  then have s1: "s1 = snd (loadChain c s)"
    by (simp only: st_def)
  have one: "streamDeck s1 \<noteq> None" "chains s1 = cs" "dev_accepts s1 = dev_accepts s0"
    "currentChain s1 = Some c"
    using cat by (simp_all add: s1)
  have run2: "presses [Bare (int i + 1), Bare 0] s = (None, showChains s1)"
    by (simp add: presses.simps p1 lc handleKeyPress_0 s1st)
  then have s2: "s2 = showChains s1"
    by (simp add: assms(15))
  have s2st: "showChains st = s2"
    by (simp only: s2 s1st)
  have again: "buttonTexts s2 = buttonTexts s" "panel_of s2 = panel_of s"
    "buttonStates s2 = buttonStates s"
    unfolding s2 s using showChains_again [OF t0(1) one(1)] one(2,3) t0(2,3) by simp_all
  have two: "streamDeck s2 \<noteq> None" "chains s2 = cs" "dev_accepts s2 = dev_accepts s0"
    using one by (simp_all add: s2)
  have p3: "handleKeyPress (Bare (int j + 1)) s2 = loadChain c' s2"
    using press_chain_slot [of s1 j] one assms(8,9,10,13) names(2) by (auto simp: s2)
  have "presses [Bare (int i + 1), Bare 0, Bare (int j + 1)] s =
      (case loadChain c' s2 of (Some e, s') \<Rightarrow> (Some e, s') | (None, s') \<Rightarrow> (None, s'))"
    by (simp add: presses.simps p1 lc handleKeyPress_0 s2st p3 split: prod.splits option.splits)
  then have s3: "s3 = snd (loadChain c' s2)"
    by (simp add: assms(16) split: prod.splits option.splits)
  have three: "currentChain s3 = Some c'" "buttonStates s3 (Finite 1) = Some (header_state c')"
    "buttonTexts s3 1 = (if dev_accepts s0 1 (chain_face c') then Some (name c') else None)"
    using two by (simp_all add: s3 loadChain_header)
  have nm: "name c = name (cs ! i)" "name c' = name (cs ! j)"
    using assms(11,13) by (auto dest: find_Some_iff [THEN iffD1])
  have first: "distinct (map name cs) \<longrightarrow> c = cs ! i \<and> c' = cs ! j"
    using find_first_named [of cs i] find_first_named [of cs j] assms(5,8,11,13) by auto
  have v1: "buttonStates s1 (Finite 1) = Some (header_state c)"
    "buttonTexts s1 1 = (if dev_accepts s0 1 (chain_face c) then Some (name c) else None)"
    using cat by (simp_all add: s1 loadChain_header)
  note v = chain_view(2-5) [OF cat(1) assms(12) s1, unfolded cat(3)]
  have differ: "name (cs ! j) \<noteq> name (cs ! i) \<longrightarrow> c' \<noteq> c"
    using nm by auto
  have f1: "fst (presses [Bare (int i + 1)] s) = None"
    by (simp only: run1 fst_conv)
  have f2: "fst (presses [Bare (int i + 1), Bare 0] s) = None"
    by (simp only: run2 fst_conv)
  show ?thesis
    using cat(2,4) slot f1 f2 one(2,4) v1 v again two(2) three differ first
    by blast
qed

text \<open>The theorem at the catalog of \<^verbatim>\<open>Drums\<close> and \<^verbatim>\<open>Bass\<close>: keys 1, 0 and 2.\<close>

theorem navigation_round_trip_witness:
  "streamDeck started \<noteq> None
   \<and> normalize_doc two_chains_doc = Inr [drums, bass]
   \<and> find (\<lambda>c. name c = name ([drums, bass] ! 0)) [drums, bass] = Some drums
   \<and> modules drums = [synth_a, comp_1]
   \<and> role synth_a = Some ''source'' \<and> role comp_1 = Some ''proc''
   \<and> find (\<lambda>c. name c = name ([drums, bass] ! 1)) [drums, bass] = Some bass
   \<and> fst (presses [Bare 1] loaded) = None
   \<and> currentChain (snd (presses [Bare 1] loaded)) = Some drums
   \<and> buttonStates (snd (presses [Bare 1] loaded)) (Finite 1) = Some (header_state drums)
   \<and> buttonTexts (snd (presses [Bare 1] loaded)) 1 = Some ''Drums''
   \<and> buttonStates (snd (presses [Bare 1] loaded)) (Finite 2) = Some (module_button_state synth_a)
   \<and> buttonTexts (snd (presses [Bare 1] loaded)) 2 = Some ''Synth A''
   \<and> buttonTexts (snd (presses [Bare 1] loaded)) 4 = None
   \<and> buttonStates loaded = Map.empty
   \<and> buttonTexts (snd (presses [Bare 1, Bare 0] loaded)) = buttonTexts loaded
   \<and> panel_of (snd (presses [Bare 1, Bare 0] loaded)) = panel_of loaded
   \<and> buttonStates (snd (presses [Bare 1, Bare 0] loaded)) = buttonStates loaded
   \<and> currentChain (snd (presses [Bare 1, Bare 0, Bare 2] loaded)) = Some bass
   \<and> bass \<noteq> drums"
proof -
  have f1: "find (\<lambda>c. name c = name ([drums, bass] ! 0)) [drums, bass] = Some drums"
    and f2: "find (\<lambda>c. name c = name ([drums, bass] ! 1)) [drums, bass] = Some bass"
    by simp_all
  have r: "\<forall>m \<in> set (modules drums). role m \<noteq> None"
    by (simp add: drums_def synth_a_def comp_1_def)
  have a: "dev_accepts started (int 0 + 1) (chain_face ([drums, bass] ! 0))"
    "dev_accepts started (int 1 + 1) (chain_face ([drums, bass] ! 1))"
    by simp_all
  note t = navigation_round_trip [where ?s0.0 = started and data = two_chains_doc
      and cs = "[drums, bass]" and s = loaded and i = 0 and j = 1 and c = drums and c' = bass
      and ?s1.0 = "snd (presses [Bare (int 0 + 1)] loaded)"
      and ?s2.0 = "snd (presses [Bare (int 0 + 1), Bare 0] loaded)"
      and ?s3.0 = "snd (presses [Bare (int 0 + 1), Bare 0, Bare (int 1 + 1)] loaded)",
      OF _ normalize_two_chains _ loaded_def _ _ a(1) _ _ a(2) f1 r f2 refl refl refl]
  have t': "fst (presses [Bare 1] loaded) = None
     \<and> currentChain (snd (presses [Bare 1] loaded)) = Some drums
     \<and> buttonStates (snd (presses [Bare 1] loaded)) (Finite 1) = Some (header_state drums)
     \<and> buttonTexts (snd (presses [Bare 1] loaded)) 1 = Some ''Drums''
     \<and> buttonStates loaded = Map.empty
     \<and> buttonTexts (snd (presses [Bare 1, Bare 0] loaded)) = buttonTexts loaded
     \<and> panel_of (snd (presses [Bare 1, Bare 0] loaded)) = panel_of loaded
     \<and> buttonStates (snd (presses [Bare 1, Bare 0] loaded)) = buttonStates loaded
     \<and> currentChain (snd (presses [Bare 1, Bare 0, Bare 2] loaded)) = Some bass"
    using t by simp
  have m: "modules drums ! 0 = synth_a" "length (modules drums) = 2"
    "module_label synth_a = ''Synth A''"
    by (simp_all add: drums_def module_label_def synth_a_def or_default_def)
  have mods: "\<forall>n < min (length (modules drums)) 30.
          buttonStates (snd (presses [Bare 1] loaded)) (Finite (int n + 2)) =
            Some (module_button_state (modules drums ! n))
          \<and> (\<exists>col. getColorForRole (role (modules drums ! n)) = Inr col
                \<and> buttonTexts (snd (presses [Bare 1] loaded)) (int n + 2) =
                    Some (module_label (modules drums ! n))
                \<and> panel_of (snd (presses [Bare 1] loaded)) (int n + 2) =
                    Some (module_face (modules drums ! n) col))"
    using t by simp
  have two: "buttonStates (snd (presses [Bare 1] loaded)) (Finite 2) =
        Some (module_button_state synth_a)"
    "buttonTexts (snd (presses [Bare 1] loaded)) 2 = Some ''Synth A''"
    using mods [rule_format, of 0] m by auto
  have beyond: "\<forall>k. k < 0 \<or> int (min (length (modules drums)) 30) + 2 \<le> k \<longrightarrow>
          buttonTexts (snd (presses [Bare 1] loaded)) k = None"
    using t by simp
  have four: "buttonTexts (snd (presses [Bare 1] loaded)) 4 = None"
    using beyond [rule_format, of 4] m(2) by simp
  have "bass \<noteq> drums"
    by (simp add: bass_def drums_def)
  moreover have "modules drums = [synth_a, comp_1]" "role synth_a = Some ''source''"
    "role comp_1 = Some ''proc''"
    by (simp_all add: drums_def synth_a_def comp_1_def)
  ultimately show ?thesis
    using t' two four f1 f2 normalize_two_chains by simp
qed

subsection \<open>C9: the payload of a release\<close>

text \<open>
  C9 says that a release resolves an object payload to the same slot as the press. With
  a release callback registered for key 3, both payloads of key 3 have the index 3 for a
  press; the release with the bare number runs the callback, the release with the object
  looks up \<^verbatim>\<open>Number(keyIndex)\<close>, which is \<^verbatim>\<open>NaN\<close>, and runs nothing.
\<close>

theorem release_ignores_structured_payload:
  "getKeyIndex (Structured 3) = 3 \<and> getKeyIndex (Bare 3) = 3
   \<and> releaseCallback (the (buttonStates registered (Finite 3))) = Some (External 2)
   \<and> fired (handleKeyRelease (Bare 3) registered) = [(External 2, KeyArg (Bare 3))]
   \<and> handleKeyRelease (Structured 3) registered = registered
   \<and> fired (handleKeyRelease (Structured 3) registered) = []"
  by (simp add: registered_def registerButtonAction_def handleKeyRelease_def invoke_def)

subsection \<open>C10: the routing of dial events\<close>

text \<open>
  C10. Dial ids fall in exactly two classes. A rotate, press or release event with
  id 0 runs the callback of the left binding, an event with any other id runs the
  callback of the right binding, and where the binding holds no callback the event
  changes nothing.
\<close>

theorem dial_routing_two_classes:
  "(enc_rotate (left s) = Some cb1 \<longrightarrow>
      handleEncoderRotate 0 rot s = s\<lparr>fired := fired s @ [(cb1, RotArg rot)]\<rparr>)
   \<and> (encoder \<noteq> 0 \<and> enc_rotate (right s) = Some cb2 \<longrightarrow>
      handleEncoderRotate encoder rot s = s\<lparr>fired := fired s @ [(cb2, RotArg rot)]\<rparr>)
   \<and> (enc_press (left s) = Some cb3 \<longrightarrow>
      handleEncoderPress 0 s = s\<lparr>fired := fired s @ [(cb3, NoArg)]\<rparr>)
   \<and> (encoder \<noteq> 0 \<and> enc_press (right s) = Some cb4 \<longrightarrow>
      handleEncoderPress encoder s = s\<lparr>fired := fired s @ [(cb4, NoArg)]\<rparr>)
   \<and> (enc_release (left s) = Some cb5 \<longrightarrow>
      handleEncoderRelease 0 s = s\<lparr>fired := fired s @ [(cb5, NoArg)]\<rparr>)
   \<and> (encoder \<noteq> 0 \<and> enc_release (right s) = Some cb6 \<longrightarrow>
      handleEncoderRelease encoder s = s\<lparr>fired := fired s @ [(cb6, NoArg)]\<rparr>)
   \<and> (enc_rotate (encoderCallbacks s (encoderKey_of encoder')) = None \<longrightarrow>
      handleEncoderRotate encoder' rot s = s)
   \<and> (enc_press (encoderCallbacks s (encoderKey_of encoder')) = None \<longrightarrow>
      handleEncoderPress encoder' s = s)
   \<and> (enc_release (encoderCallbacks s (encoderKey_of encoder')) = None \<longrightarrow>
      handleEncoderRelease encoder' s = s)"
  by (simp add: handleEncoderRotate_def handleEncoderPress_def handleEncoderRelease_def
      invoke_opt_def invoke_def encoderCallbacks_def encoderKey_of_def)

text \<open>
  The theorem at a controller with all six callbacks registered (dial ids 0 and 7), and
  at the fresh controller, where no callback is registered (dial ids 0 and 7 again).
\<close>

theorem dial_routing_two_classes_witness:
  "(let s = registerEncoderActions 1 (Some (External 4)) (Some (External 5)) (Some (External 6))
              (registerEncoderActions 0 (Some (External 1)) (Some (External 2)) (Some (External 3))
                 (initial None))
    in enc_rotate (left s) = Some (External 1) \<and> enc_rotate (right s) = Some (External 4)
       \<and> enc_press (left s) = Some (External 2) \<and> enc_press (right s) = Some (External 5)
       \<and> enc_release (left s) = Some (External 3) \<and> enc_release (right s) = Some (External 6)
       \<and> fired (handleEncoderRotate 0 (- 2) s) = [(External 1, RotArg (- 2))]
       \<and> fired (handleEncoderRotate 7 (- 2) s) = [(External 4, RotArg (- 2))]
       \<and> fired (handleEncoderPress 0 s) = [(External 2, NoArg)]
       \<and> fired (handleEncoderPress 7 s) = [(External 5, NoArg)]
       \<and> fired (handleEncoderRelease 0 s) = [(External 3, NoArg)]
       \<and> fired (handleEncoderRelease 7 s) = [(External 6, NoArg)])
   \<and> handleEncoderRotate 0 3 (initial None) = initial None
   \<and> handleEncoderRotate 7 3 (initial None) = initial None
   \<and> handleEncoderPress 0 (initial None) = initial None
   \<and> handleEncoderPress 7 (initial None) = initial None
   \<and> handleEncoderRelease 0 (initial None) = initial None
   \<and> handleEncoderRelease 7 (initial None) = initial None"
  using dial_routing_two_classes
          [of "registerEncoderActions 1 (Some (External 4)) (Some (External 5)) (Some (External 6))
                 (registerEncoderActions 0 (Some (External 1)) (Some (External 2))
                    (Some (External 3)) (initial None))"
              "External 1" "- 2" 7 "External 4" "External 2" "External 5" "External 3"
              "External 6" 0]
        dial_routing_two_classes [of "initial None" _ 3 1 _ _ _ _ _ 0]
        dial_routing_two_classes [of "initial None" _ 3 1 _ _ _ _ _ 7]
  by (simp add: registerEncoderActions_def encoderKey_of_def encoderCallbacks_def initial_def
      no_callbacks_def Let_def)

end
